theory Spec2Isabelle
  imports
    Complex_Main
    "HOL-Library.List_Lexorder"
    "HOL-Library.Sublist"
begin

section \<open>Python values used by the PATENTMATCH components\<close>

subsection \<open>Exceptions\<close>

text \<open>
  The exceptions that the built-ins called by \<^verbatim>\<open>ace/patent.py\<close> and
  \<^verbatim>\<open>ace/metrics.py\<close> can raise. A function that can raise returns
  \<open>exn + 'a\<close>, with \<open>Inl\<close> for the exception.
\<close>

datatype exn = TypeError | ValueError | OverflowError | ZeroDivisionError

definition bind_exn :: "exn + 'a \<Rightarrow> ('a \<Rightarrow> exn + 'b) \<Rightarrow> exn + 'b" where
  "bind_exn r f = (case r of Inl e \<Rightarrow> Inl e | Inr x \<Rightarrow> f x)"

subsection \<open>Strings: \<^verbatim>\<open>str.strip\<close> and \<^verbatim>\<open>str.upper\<close>\<close>

text \<open>
  A Python \<^verbatim>\<open>str\<close> is a sequence of Unicode code points, modelled as a list of
  natural numbers; \<open>str\<close> turns a literal of the source into such a list. Two
  strings are compared code point by code point, which is the lexicographic order on
  lists of numbers.
\<close>

type_synonym pystr = "nat list"

definition str :: "string \<Rightarrow> pystr" where
  "str s = map of_char s"

text \<open>
  \<^verbatim>\<open>str.strip()\<close> without argument removes the leading and the trailing
  characters for which \<^verbatim>\<open>str.isspace\<close> holds. These are 29 code points:
  U+0009 to U+000D, U+001C to U+0020, U+0085, U+00A0, U+1680, U+2000 to U+200A, U+2028,
  U+2029, U+202F, U+205F and U+3000.
\<close>

definition whitespace :: "nat list" where
  "whitespace =
     [9, 10, 11, 12, 13, 28, 29, 30, 31, 32, 133, 160, 5760,
      8192, 8193, 8194, 8195, 8196, 8197, 8198, 8199, 8200, 8201, 8202,
      8232, 8233, 8239, 8287, 12288]"

definition py_isspace :: "nat \<Rightarrow> bool" where
  "py_isspace c = (c \<in> set whitespace)"

definition py_strip :: "pystr \<Rightarrow> pystr" where
  "py_strip s = rev (dropWhile py_isspace (rev (dropWhile py_isspace s)))"

text \<open>
  \<^verbatim>\<open>str.upper()\<close> replaces every character by its full uppercase mapping,
  which may be several characters (U+00DF, the sharp s, becomes SS), and leaves a
  character without such a mapping as it is; the mapping of a character does not
  depend on its neighbours. The table below holds the 1525 code points that
  \<^verbatim>\<open>str.upper()\<close> changes, with their images, for the Unicode Character
  Database 14.0.0 of CPython 3.11. It is a search tree ordered by code point.
\<close>

datatype case_tree = Tip | Branch case_tree nat "nat list" case_tree

fun tree_lookup :: "case_tree \<Rightarrow> nat \<Rightarrow> nat list option" where
  "tree_lookup Tip c = None"
| "tree_lookup (Branch l k u r) c =
     (if c < k then tree_lookup l c else if k < c then tree_lookup r c else Some u)"

definition upper_tree :: case_tree where
  "upper_tree =
     (Branch (Branch (Branch (Branch (Branch (Branch (Branch (Branch (Branch (Branch (Branch Tip 97
     [65] Tip) 98 [66] Tip) 99 [67] (Branch (Branch Tip 100 [68] Tip) 101 [69] Tip)) 102 [70]
     (Branch (Branch (Branch Tip 103 [71] Tip) 104 [72] Tip) 105 [73] (Branch (Branch Tip 106 [74]
     Tip) 107 [75] Tip))) 108 [76] (Branch (Branch (Branch (Branch Tip 109 [77] Tip) 110 [78] Tip)
     111 [79] (Branch (Branch Tip 112 [80] Tip) 113 [81] Tip)) 114 [82] (Branch (Branch (Branch Tip
     115 [83] Tip) 116 [84] Tip) 117 [85] (Branch (Branch Tip 118 [86] Tip) 119 [87] Tip)))) 120
     [88] (Branch (Branch (Branch (Branch (Branch Tip 121 [89] Tip) 122 [90] Tip) 181 [924] (Branch
     (Branch Tip 223 [83, 83] Tip) 224 [192] Tip)) 225 [193] (Branch (Branch (Branch Tip 226 [194]
     Tip) 227 [195] Tip) 228 [196] (Branch (Branch Tip 229 [197] Tip) 230 [198] Tip))) 231 [199]
     (Branch (Branch (Branch (Branch Tip 232 [200] Tip) 233 [201] Tip) 234 [202] (Branch (Branch
     Tip 235 [203] Tip) 236 [204] Tip)) 237 [205] (Branch (Branch (Branch Tip 238 [206] Tip) 239
     [207] Tip) 240 [208] (Branch (Branch Tip 241 [209] Tip) 242 [210] Tip))))) 243 [211] (Branch
     (Branch (Branch (Branch (Branch (Branch Tip 244 [212] Tip) 245 [213] Tip) 246 [214] (Branch
     (Branch Tip 248 [216] Tip) 249 [217] Tip)) 250 [218] (Branch (Branch (Branch Tip 251 [219]
     Tip) 252 [220] Tip) 253 [221] (Branch (Branch Tip 254 [222] Tip) 255 [376] Tip))) 257 [256]
     (Branch (Branch (Branch (Branch Tip 259 [258] Tip) 261 [260] Tip) 263 [262] (Branch (Branch
     Tip 265 [264] Tip) 267 [266] Tip)) 269 [268] (Branch (Branch (Branch Tip 271 [270] Tip) 273
     [272] Tip) 275 [274] (Branch (Branch Tip 277 [276] Tip) 279 [278] Tip)))) 281 [280] (Branch
     (Branch (Branch (Branch (Branch Tip 283 [282] Tip) 285 [284] Tip) 287 [286] (Branch (Branch
     Tip 289 [288] Tip) 291 [290] Tip)) 293 [292] (Branch (Branch (Branch Tip 295 [294] Tip) 297
     [296] Tip) 299 [298] (Branch (Branch Tip 301 [300] Tip) 303 [302] Tip))) 305 [73] (Branch
     (Branch (Branch (Branch Tip 307 [306] Tip) 309 [308] Tip) 311 [310] (Branch (Branch Tip 314
     [313] Tip) 316 [315] Tip)) 318 [317] (Branch (Branch (Branch Tip 320 [319] Tip) 322 [321] Tip)
     324 [323] (Branch (Branch Tip 326 [325] Tip) 328 [327] Tip)))))) 329 [700, 78] (Branch (Branch
     (Branch (Branch (Branch (Branch (Branch Tip 331 [330] Tip) 333 [332] Tip) 335 [334] (Branch
     (Branch Tip 337 [336] Tip) 339 [338] Tip)) 341 [340] (Branch (Branch (Branch Tip 343 [342]
     Tip) 345 [344] Tip) 347 [346] (Branch (Branch Tip 349 [348] Tip) 351 [350] Tip))) 353 [352]
     (Branch (Branch (Branch (Branch Tip 355 [354] Tip) 357 [356] Tip) 359 [358] (Branch (Branch
     Tip 361 [360] Tip) 363 [362] Tip)) 365 [364] (Branch (Branch (Branch Tip 367 [366] Tip) 369
     [368] Tip) 371 [370] (Branch (Branch Tip 373 [372] Tip) 375 [374] Tip)))) 378 [377] (Branch
     (Branch (Branch (Branch (Branch Tip 380 [379] Tip) 382 [381] Tip) 383 [83] (Branch (Branch Tip
     384 [579] Tip) 387 [386] Tip)) 389 [388] (Branch (Branch (Branch Tip 392 [391] Tip) 396 [395]
     Tip) 402 [401] (Branch (Branch Tip 405 [502] Tip) 409 [408] Tip))) 410 [573] (Branch (Branch
     (Branch (Branch Tip 414 [544] Tip) 417 [416] Tip) 419 [418] (Branch (Branch Tip 421 [420] Tip)
     424 [423] Tip)) 429 [428] (Branch (Branch (Branch Tip 432 [431] Tip) 436 [435] Tip) 438 [437]
     (Branch (Branch Tip 441 [440] Tip) 445 [444] Tip))))) 447 [503] (Branch (Branch (Branch
     (Branch (Branch (Branch Tip 453 [452] Tip) 454 [452] Tip) 456 [455] (Branch (Branch Tip 457
     [455] Tip) 459 [458] Tip)) 460 [458] (Branch (Branch (Branch Tip 462 [461] Tip) 464 [463] Tip)
     466 [465] (Branch (Branch Tip 468 [467] Tip) 470 [469] Tip))) 472 [471] (Branch (Branch
     (Branch (Branch Tip 474 [473] Tip) 476 [475] Tip) 477 [398] (Branch (Branch Tip 479 [478] Tip)
     481 [480] Tip)) 483 [482] (Branch (Branch (Branch Tip 485 [484] Tip) 487 [486] Tip) 489 [488]
     (Branch (Branch Tip 491 [490] Tip) 493 [492] Tip)))) 495 [494] (Branch (Branch (Branch (Branch
     (Branch Tip 496 [74, 780] Tip) 498 [497] Tip) 499 [497] (Branch (Branch Tip 501 [500] Tip) 505
     [504] Tip)) 507 [506] (Branch (Branch (Branch Tip 509 [508] Tip) 511 [510] Tip) 513 [512]
     (Branch (Branch Tip 515 [514] Tip) 517 [516] Tip))) 519 [518] (Branch (Branch (Branch (Branch
     Tip 521 [520] Tip) 523 [522] Tip) 525 [524] (Branch (Branch Tip 527 [526] Tip) 529 [528] Tip))
     531 [530] (Branch (Branch (Branch Tip 533 [532] Tip) 535 [534] Tip) 537 [536] (Branch Tip 539
     [538] Tip))))))) 541 [540] (Branch (Branch (Branch (Branch (Branch (Branch (Branch (Branch Tip
     543 [542] Tip) 547 [546] Tip) 549 [548] (Branch (Branch Tip 551 [550] Tip) 553 [552] Tip)) 555
     [554] (Branch (Branch (Branch Tip 557 [556] Tip) 559 [558] Tip) 561 [560] (Branch (Branch Tip
     563 [562] Tip) 572 [571] Tip))) 575 [11390] (Branch (Branch (Branch (Branch Tip 576 [11391]
     Tip) 578 [577] Tip) 583 [582] (Branch (Branch Tip 585 [584] Tip) 587 [586] Tip)) 589 [588]
     (Branch (Branch (Branch Tip 591 [590] Tip) 592 [11375] Tip) 593 [11373] (Branch (Branch Tip
     594 [11376] Tip) 595 [385] Tip)))) 596 [390] (Branch (Branch (Branch (Branch (Branch Tip 598
     [393] Tip) 599 [394] Tip) 601 [399] (Branch (Branch Tip 603 [400] Tip) 604 [42923] Tip)) 608
     [403] (Branch (Branch (Branch Tip 609 [42924] Tip) 611 [404] Tip) 613 [42893] (Branch (Branch
     Tip 614 [42922] Tip) 616 [407] Tip))) 617 [406] (Branch (Branch (Branch (Branch Tip 618
     [42926] Tip) 619 [11362] Tip) 620 [42925] (Branch (Branch Tip 623 [412] Tip) 625 [11374] Tip))
     626 [413] (Branch (Branch (Branch Tip 629 [415] Tip) 637 [11364] Tip) 640 [422] (Branch
     (Branch Tip 642 [42949] Tip) 643 [425] Tip))))) 647 [42929] (Branch (Branch (Branch (Branch
     (Branch (Branch Tip 648 [430] Tip) 649 [580] Tip) 650 [433] (Branch (Branch Tip 651 [434] Tip)
     652 [581] Tip)) 658 [439] (Branch (Branch (Branch Tip 669 [42930] Tip) 670 [42928] Tip) 837
     [921] (Branch (Branch Tip 881 [880] Tip) 883 [882] Tip))) 887 [886] (Branch (Branch (Branch
     (Branch Tip 891 [1021] Tip) 892 [1022] Tip) 893 [1023] (Branch (Branch Tip 912 [921, 776, 769]
     Tip) 940 [902] Tip)) 941 [904] (Branch (Branch (Branch Tip 942 [905] Tip) 943 [906] Tip) 944
     [933, 776, 769] (Branch (Branch Tip 945 [913] Tip) 946 [914] Tip)))) 947 [915] (Branch (Branch
     (Branch (Branch (Branch Tip 948 [916] Tip) 949 [917] Tip) 950 [918] (Branch (Branch Tip 951
     [919] Tip) 952 [920] Tip)) 953 [921] (Branch (Branch (Branch Tip 954 [922] Tip) 955 [923] Tip)
     956 [924] (Branch (Branch Tip 957 [925] Tip) 958 [926] Tip))) 959 [927] (Branch (Branch
     (Branch (Branch Tip 960 [928] Tip) 961 [929] Tip) 962 [931] (Branch (Branch Tip 963 [931] Tip)
     964 [932] Tip)) 965 [933] (Branch (Branch (Branch Tip 966 [934] Tip) 967 [935] Tip) 968 [936]
     (Branch (Branch Tip 969 [937] Tip) 970 [938] Tip)))))) 971 [939] (Branch (Branch (Branch
     (Branch (Branch (Branch (Branch Tip 972 [908] Tip) 973 [910] Tip) 974 [911] (Branch (Branch
     Tip 976 [914] Tip) 977 [920] Tip)) 981 [934] (Branch (Branch (Branch Tip 982 [928] Tip) 983
     [975] Tip) 985 [984] (Branch (Branch Tip 987 [986] Tip) 989 [988] Tip))) 991 [990] (Branch
     (Branch (Branch (Branch Tip 993 [992] Tip) 995 [994] Tip) 997 [996] (Branch (Branch Tip 999
     [998] Tip) 1001 [1000] Tip)) 1003 [1002] (Branch (Branch (Branch Tip 1005 [1004] Tip) 1007
     [1006] Tip) 1008 [922] (Branch (Branch Tip 1009 [929] Tip) 1010 [1017] Tip)))) 1011 [895]
     (Branch (Branch (Branch (Branch (Branch Tip 1013 [917] Tip) 1016 [1015] Tip) 1019 [1018]
     (Branch (Branch Tip 1072 [1040] Tip) 1073 [1041] Tip)) 1074 [1042] (Branch (Branch (Branch Tip
     1075 [1043] Tip) 1076 [1044] Tip) 1077 [1045] (Branch (Branch Tip 1078 [1046] Tip) 1079 [1047]
     Tip))) 1080 [1048] (Branch (Branch (Branch (Branch Tip 1081 [1049] Tip) 1082 [1050] Tip) 1083
     [1051] (Branch (Branch Tip 1084 [1052] Tip) 1085 [1053] Tip)) 1086 [1054] (Branch (Branch
     (Branch Tip 1087 [1055] Tip) 1088 [1056] Tip) 1089 [1057] (Branch (Branch Tip 1090 [1058] Tip)
     1091 [1059] Tip))))) 1092 [1060] (Branch (Branch (Branch (Branch (Branch (Branch Tip 1093
     [1061] Tip) 1094 [1062] Tip) 1095 [1063] (Branch (Branch Tip 1096 [1064] Tip) 1097 [1065]
     Tip)) 1098 [1066] (Branch (Branch (Branch Tip 1099 [1067] Tip) 1100 [1068] Tip) 1101 [1069]
     (Branch (Branch Tip 1102 [1070] Tip) 1103 [1071] Tip))) 1104 [1024] (Branch (Branch (Branch
     (Branch Tip 1105 [1025] Tip) 1106 [1026] Tip) 1107 [1027] (Branch (Branch Tip 1108 [1028] Tip)
     1109 [1029] Tip)) 1110 [1030] (Branch (Branch (Branch Tip 1111 [1031] Tip) 1112 [1032] Tip)
     1113 [1033] (Branch (Branch Tip 1114 [1034] Tip) 1115 [1035] Tip)))) 1116 [1036] (Branch
     (Branch (Branch (Branch (Branch Tip 1117 [1037] Tip) 1118 [1038] Tip) 1119 [1039] (Branch
     (Branch Tip 1121 [1120] Tip) 1123 [1122] Tip)) 1125 [1124] (Branch (Branch (Branch Tip 1127
     [1126] Tip) 1129 [1128] Tip) 1131 [1130] (Branch (Branch Tip 1133 [1132] Tip) 1135 [1134]
     Tip))) 1137 [1136] (Branch (Branch (Branch (Branch Tip 1139 [1138] Tip) 1141 [1140] Tip) 1143
     [1142] (Branch (Branch Tip 1145 [1144] Tip) 1147 [1146] Tip)) 1149 [1148] (Branch (Branch
     (Branch Tip 1151 [1150] Tip) 1153 [1152] Tip) 1163 [1162] (Branch Tip 1165 [1164] Tip))))))))
     1167 [1166] (Branch (Branch (Branch (Branch (Branch (Branch (Branch (Branch (Branch Tip 1169
     [1168] Tip) 1171 [1170] Tip) 1173 [1172] (Branch (Branch Tip 1175 [1174] Tip) 1177 [1176]
     Tip)) 1179 [1178] (Branch (Branch (Branch Tip 1181 [1180] Tip) 1183 [1182] Tip) 1185 [1184]
     (Branch (Branch Tip 1187 [1186] Tip) 1189 [1188] Tip))) 1191 [1190] (Branch (Branch (Branch
     (Branch Tip 1193 [1192] Tip) 1195 [1194] Tip) 1197 [1196] (Branch (Branch Tip 1199 [1198] Tip)
     1201 [1200] Tip)) 1203 [1202] (Branch (Branch (Branch Tip 1205 [1204] Tip) 1207 [1206] Tip)
     1209 [1208] (Branch (Branch Tip 1211 [1210] Tip) 1213 [1212] Tip)))) 1215 [1214] (Branch
     (Branch (Branch (Branch (Branch Tip 1218 [1217] Tip) 1220 [1219] Tip) 1222 [1221] (Branch
     (Branch Tip 1224 [1223] Tip) 1226 [1225] Tip)) 1228 [1227] (Branch (Branch (Branch Tip 1230
     [1229] Tip) 1231 [1216] Tip) 1233 [1232] (Branch (Branch Tip 1235 [1234] Tip) 1237 [1236]
     Tip))) 1239 [1238] (Branch (Branch (Branch (Branch Tip 1241 [1240] Tip) 1243 [1242] Tip) 1245
     [1244] (Branch (Branch Tip 1247 [1246] Tip) 1249 [1248] Tip)) 1251 [1250] (Branch (Branch
     (Branch Tip 1253 [1252] Tip) 1255 [1254] Tip) 1257 [1256] (Branch (Branch Tip 1259 [1258] Tip)
     1261 [1260] Tip))))) 1263 [1262] (Branch (Branch (Branch (Branch (Branch (Branch Tip 1265
     [1264] Tip) 1267 [1266] Tip) 1269 [1268] (Branch (Branch Tip 1271 [1270] Tip) 1273 [1272]
     Tip)) 1275 [1274] (Branch (Branch (Branch Tip 1277 [1276] Tip) 1279 [1278] Tip) 1281 [1280]
     (Branch (Branch Tip 1283 [1282] Tip) 1285 [1284] Tip))) 1287 [1286] (Branch (Branch (Branch
     (Branch Tip 1289 [1288] Tip) 1291 [1290] Tip) 1293 [1292] (Branch (Branch Tip 1295 [1294] Tip)
     1297 [1296] Tip)) 1299 [1298] (Branch (Branch (Branch Tip 1301 [1300] Tip) 1303 [1302] Tip)
     1305 [1304] (Branch (Branch Tip 1307 [1306] Tip) 1309 [1308] Tip)))) 1311 [1310] (Branch
     (Branch (Branch (Branch (Branch Tip 1313 [1312] Tip) 1315 [1314] Tip) 1317 [1316] (Branch
     (Branch Tip 1319 [1318] Tip) 1321 [1320] Tip)) 1323 [1322] (Branch (Branch (Branch Tip 1325
     [1324] Tip) 1327 [1326] Tip) 1377 [1329] (Branch (Branch Tip 1378 [1330] Tip) 1379 [1331]
     Tip))) 1380 [1332] (Branch (Branch (Branch (Branch Tip 1381 [1333] Tip) 1382 [1334] Tip) 1383
     [1335] (Branch (Branch Tip 1384 [1336] Tip) 1385 [1337] Tip)) 1386 [1338] (Branch (Branch
     (Branch Tip 1387 [1339] Tip) 1388 [1340] Tip) 1389 [1341] (Branch (Branch Tip 1390 [1342] Tip)
     1391 [1343] Tip)))))) 1392 [1344] (Branch (Branch (Branch (Branch (Branch (Branch (Branch Tip
     1393 [1345] Tip) 1394 [1346] Tip) 1395 [1347] (Branch (Branch Tip 1396 [1348] Tip) 1397 [1349]
     Tip)) 1398 [1350] (Branch (Branch (Branch Tip 1399 [1351] Tip) 1400 [1352] Tip) 1401 [1353]
     (Branch (Branch Tip 1402 [1354] Tip) 1403 [1355] Tip))) 1404 [1356] (Branch (Branch (Branch
     (Branch Tip 1405 [1357] Tip) 1406 [1358] Tip) 1407 [1359] (Branch (Branch Tip 1408 [1360] Tip)
     1409 [1361] Tip)) 1410 [1362] (Branch (Branch (Branch Tip 1411 [1363] Tip) 1412 [1364] Tip)
     1413 [1365] (Branch (Branch Tip 1414 [1366] Tip) 1415 [1333, 1362] Tip)))) 4304 [7312] (Branch
     (Branch (Branch (Branch (Branch Tip 4305 [7313] Tip) 4306 [7314] Tip) 4307 [7315] (Branch
     (Branch Tip 4308 [7316] Tip) 4309 [7317] Tip)) 4310 [7318] (Branch (Branch (Branch Tip 4311
     [7319] Tip) 4312 [7320] Tip) 4313 [7321] (Branch (Branch Tip 4314 [7322] Tip) 4315 [7323]
     Tip))) 4316 [7324] (Branch (Branch (Branch (Branch Tip 4317 [7325] Tip) 4318 [7326] Tip) 4319
     [7327] (Branch (Branch Tip 4320 [7328] Tip) 4321 [7329] Tip)) 4322 [7330] (Branch (Branch
     (Branch Tip 4323 [7331] Tip) 4324 [7332] Tip) 4325 [7333] (Branch (Branch Tip 4326 [7334] Tip)
     4327 [7335] Tip))))) 4328 [7336] (Branch (Branch (Branch (Branch (Branch (Branch Tip 4329
     [7337] Tip) 4330 [7338] Tip) 4331 [7339] (Branch (Branch Tip 4332 [7340] Tip) 4333 [7341]
     Tip)) 4334 [7342] (Branch (Branch (Branch Tip 4335 [7343] Tip) 4336 [7344] Tip) 4337 [7345]
     (Branch (Branch Tip 4338 [7346] Tip) 4339 [7347] Tip))) 4340 [7348] (Branch (Branch (Branch
     (Branch Tip 4341 [7349] Tip) 4342 [7350] Tip) 4343 [7351] (Branch (Branch Tip 4344 [7352] Tip)
     4345 [7353] Tip)) 4346 [7354] (Branch (Branch (Branch Tip 4349 [7357] Tip) 4350 [7358] Tip)
     4351 [7359] (Branch (Branch Tip 5112 [5104] Tip) 5113 [5105] Tip)))) 5114 [5106] (Branch
     (Branch (Branch (Branch (Branch Tip 5115 [5107] Tip) 5116 [5108] Tip) 5117 [5109] (Branch
     (Branch Tip 7296 [1042] Tip) 7297 [1044] Tip)) 7298 [1054] (Branch (Branch (Branch Tip 7299
     [1057] Tip) 7300 [1058] Tip) 7301 [1058] (Branch (Branch Tip 7302 [1066] Tip) 7303 [1122]
     Tip))) 7304 [42570] (Branch (Branch (Branch (Branch Tip 7545 [42877] Tip) 7549 [11363] Tip)
     7566 [42950] (Branch (Branch Tip 7681 [7680] Tip) 7683 [7682] Tip)) 7685 [7684] (Branch
     (Branch (Branch Tip 7687 [7686] Tip) 7689 [7688] Tip) 7691 [7690] (Branch Tip 7693 [7692]
     Tip))))))) 7695 [7694] (Branch (Branch (Branch (Branch (Branch (Branch (Branch (Branch Tip
     7697 [7696] Tip) 7699 [7698] Tip) 7701 [7700] (Branch (Branch Tip 7703 [7702] Tip) 7705 [7704]
     Tip)) 7707 [7706] (Branch (Branch (Branch Tip 7709 [7708] Tip) 7711 [7710] Tip) 7713 [7712]
     (Branch (Branch Tip 7715 [7714] Tip) 7717 [7716] Tip))) 7719 [7718] (Branch (Branch (Branch
     (Branch Tip 7721 [7720] Tip) 7723 [7722] Tip) 7725 [7724] (Branch (Branch Tip 7727 [7726] Tip)
     7729 [7728] Tip)) 7731 [7730] (Branch (Branch (Branch Tip 7733 [7732] Tip) 7735 [7734] Tip)
     7737 [7736] (Branch (Branch Tip 7739 [7738] Tip) 7741 [7740] Tip)))) 7743 [7742] (Branch
     (Branch (Branch (Branch (Branch Tip 7745 [7744] Tip) 7747 [7746] Tip) 7749 [7748] (Branch
     (Branch Tip 7751 [7750] Tip) 7753 [7752] Tip)) 7755 [7754] (Branch (Branch (Branch Tip 7757
     [7756] Tip) 7759 [7758] Tip) 7761 [7760] (Branch (Branch Tip 7763 [7762] Tip) 7765 [7764]
     Tip))) 7767 [7766] (Branch (Branch (Branch (Branch Tip 7769 [7768] Tip) 7771 [7770] Tip) 7773
     [7772] (Branch (Branch Tip 7775 [7774] Tip) 7777 [7776] Tip)) 7779 [7778] (Branch (Branch
     (Branch Tip 7781 [7780] Tip) 7783 [7782] Tip) 7785 [7784] (Branch (Branch Tip 7787 [7786] Tip)
     7789 [7788] Tip))))) 7791 [7790] (Branch (Branch (Branch (Branch (Branch (Branch Tip 7793
     [7792] Tip) 7795 [7794] Tip) 7797 [7796] (Branch (Branch Tip 7799 [7798] Tip) 7801 [7800]
     Tip)) 7803 [7802] (Branch (Branch (Branch Tip 7805 [7804] Tip) 7807 [7806] Tip) 7809 [7808]
     (Branch (Branch Tip 7811 [7810] Tip) 7813 [7812] Tip))) 7815 [7814] (Branch (Branch (Branch
     (Branch Tip 7817 [7816] Tip) 7819 [7818] Tip) 7821 [7820] (Branch (Branch Tip 7823 [7822] Tip)
     7825 [7824] Tip)) 7827 [7826] (Branch (Branch (Branch Tip 7829 [7828] Tip) 7830 [72, 817] Tip)
     7831 [84, 776] (Branch (Branch Tip 7832 [87, 778] Tip) 7833 [89, 778] Tip)))) 7834 [65, 702]
     (Branch (Branch (Branch (Branch (Branch Tip 7835 [7776] Tip) 7841 [7840] Tip) 7843 [7842]
     (Branch (Branch Tip 7845 [7844] Tip) 7847 [7846] Tip)) 7849 [7848] (Branch (Branch (Branch Tip
     7851 [7850] Tip) 7853 [7852] Tip) 7855 [7854] (Branch (Branch Tip 7857 [7856] Tip) 7859 [7858]
     Tip))) 7861 [7860] (Branch (Branch (Branch (Branch Tip 7863 [7862] Tip) 7865 [7864] Tip) 7867
     [7866] (Branch (Branch Tip 7869 [7868] Tip) 7871 [7870] Tip)) 7873 [7872] (Branch (Branch
     (Branch Tip 7875 [7874] Tip) 7877 [7876] Tip) 7879 [7878] (Branch Tip 7881 [7880] Tip))))))
     7883 [7882] (Branch (Branch (Branch (Branch (Branch (Branch (Branch Tip 7885 [7884] Tip) 7887
     [7886] Tip) 7889 [7888] (Branch (Branch Tip 7891 [7890] Tip) 7893 [7892] Tip)) 7895 [7894]
     (Branch (Branch (Branch Tip 7897 [7896] Tip) 7899 [7898] Tip) 7901 [7900] (Branch (Branch Tip
     7903 [7902] Tip) 7905 [7904] Tip))) 7907 [7906] (Branch (Branch (Branch (Branch Tip 7909
     [7908] Tip) 7911 [7910] Tip) 7913 [7912] (Branch (Branch Tip 7915 [7914] Tip) 7917 [7916]
     Tip)) 7919 [7918] (Branch (Branch (Branch Tip 7921 [7920] Tip) 7923 [7922] Tip) 7925 [7924]
     (Branch (Branch Tip 7927 [7926] Tip) 7929 [7928] Tip)))) 7931 [7930] (Branch (Branch (Branch
     (Branch (Branch Tip 7933 [7932] Tip) 7935 [7934] Tip) 7936 [7944] (Branch (Branch Tip 7937
     [7945] Tip) 7938 [7946] Tip)) 7939 [7947] (Branch (Branch (Branch Tip 7940 [7948] Tip) 7941
     [7949] Tip) 7942 [7950] (Branch (Branch Tip 7943 [7951] Tip) 7952 [7960] Tip))) 7953 [7961]
     (Branch (Branch (Branch (Branch Tip 7954 [7962] Tip) 7955 [7963] Tip) 7956 [7964] (Branch
     (Branch Tip 7957 [7965] Tip) 7968 [7976] Tip)) 7969 [7977] (Branch (Branch (Branch Tip 7970
     [7978] Tip) 7971 [7979] Tip) 7972 [7980] (Branch (Branch Tip 7973 [7981] Tip) 7974 [7982]
     Tip))))) 7975 [7983] (Branch (Branch (Branch (Branch (Branch (Branch Tip 7984 [7992] Tip) 7985
     [7993] Tip) 7986 [7994] (Branch (Branch Tip 7987 [7995] Tip) 7988 [7996] Tip)) 7989 [7997]
     (Branch (Branch (Branch Tip 7990 [7998] Tip) 7991 [7999] Tip) 8000 [8008] (Branch (Branch Tip
     8001 [8009] Tip) 8002 [8010] Tip))) 8003 [8011] (Branch (Branch (Branch (Branch Tip 8004
     [8012] Tip) 8005 [8013] Tip) 8016 [933, 787] (Branch (Branch Tip 8017 [8025] Tip) 8018 [933,
     787, 768] Tip)) 8019 [8027] (Branch (Branch (Branch Tip 8020 [933, 787, 769] Tip) 8021 [8029]
     Tip) 8022 [933, 787, 834] (Branch (Branch Tip 8023 [8031] Tip) 8032 [8040] Tip)))) 8033 [8041]
     (Branch (Branch (Branch (Branch (Branch Tip 8034 [8042] Tip) 8035 [8043] Tip) 8036 [8044]
     (Branch (Branch Tip 8037 [8045] Tip) 8038 [8046] Tip)) 8039 [8047] (Branch (Branch (Branch Tip
     8048 [8122] Tip) 8049 [8123] Tip) 8050 [8136] (Branch (Branch Tip 8051 [8137] Tip) 8052 [8138]
     Tip))) 8053 [8139] (Branch (Branch (Branch (Branch Tip 8054 [8154] Tip) 8055 [8155] Tip) 8056
     [8184] (Branch (Branch Tip 8057 [8185] Tip) 8058 [8170] Tip)) 8059 [8171] (Branch (Branch
     (Branch Tip 8060 [8186] Tip) 8061 [8187] Tip) 8064 [7944, 921] (Branch Tip 8065 [7945, 921]
     Tip))))))))) 8066 [7946, 921] (Branch (Branch (Branch (Branch (Branch (Branch (Branch (Branch
     (Branch (Branch Tip 8067 [7947, 921] Tip) 8068 [7948, 921] Tip) 8069 [7949, 921] (Branch
     (Branch Tip 8070 [7950, 921] Tip) 8071 [7951, 921] Tip)) 8072 [7944, 921] (Branch (Branch
     (Branch Tip 8073 [7945, 921] Tip) 8074 [7946, 921] Tip) 8075 [7947, 921] (Branch (Branch Tip
     8076 [7948, 921] Tip) 8077 [7949, 921] Tip))) 8078 [7950, 921] (Branch (Branch (Branch (Branch
     Tip 8079 [7951, 921] Tip) 8080 [7976, 921] Tip) 8081 [7977, 921] (Branch (Branch Tip 8082
     [7978, 921] Tip) 8083 [7979, 921] Tip)) 8084 [7980, 921] (Branch (Branch (Branch Tip 8085
     [7981, 921] Tip) 8086 [7982, 921] Tip) 8087 [7983, 921] (Branch (Branch Tip 8088 [7976, 921]
     Tip) 8089 [7977, 921] Tip)))) 8090 [7978, 921] (Branch (Branch (Branch (Branch (Branch Tip
     8091 [7979, 921] Tip) 8092 [7980, 921] Tip) 8093 [7981, 921] (Branch (Branch Tip 8094 [7982,
     921] Tip) 8095 [7983, 921] Tip)) 8096 [8040, 921] (Branch (Branch (Branch Tip 8097 [8041, 921]
     Tip) 8098 [8042, 921] Tip) 8099 [8043, 921] (Branch (Branch Tip 8100 [8044, 921] Tip) 8101
     [8045, 921] Tip))) 8102 [8046, 921] (Branch (Branch (Branch (Branch Tip 8103 [8047, 921] Tip)
     8104 [8040, 921] Tip) 8105 [8041, 921] (Branch (Branch Tip 8106 [8042, 921] Tip) 8107 [8043,
     921] Tip)) 8108 [8044, 921] (Branch (Branch (Branch Tip 8109 [8045, 921] Tip) 8110 [8046, 921]
     Tip) 8111 [8047, 921] (Branch (Branch Tip 8112 [8120] Tip) 8113 [8121] Tip))))) 8114 [8122,
     921] (Branch (Branch (Branch (Branch (Branch (Branch Tip 8115 [913, 921] Tip) 8116 [902, 921]
     Tip) 8118 [913, 834] (Branch (Branch Tip 8119 [913, 834, 921] Tip) 8124 [913, 921] Tip)) 8126
     [921] (Branch (Branch (Branch Tip 8130 [8138, 921] Tip) 8131 [919, 921] Tip) 8132 [905, 921]
     (Branch (Branch Tip 8134 [919, 834] Tip) 8135 [919, 834, 921] Tip))) 8140 [919, 921] (Branch
     (Branch (Branch (Branch Tip 8144 [8152] Tip) 8145 [8153] Tip) 8146 [921, 776, 768] (Branch
     (Branch Tip 8147 [921, 776, 769] Tip) 8150 [921, 834] Tip)) 8151 [921, 776, 834] (Branch
     (Branch (Branch Tip 8160 [8168] Tip) 8161 [8169] Tip) 8162 [933, 776, 768] (Branch (Branch Tip
     8163 [933, 776, 769] Tip) 8164 [929, 787] Tip)))) 8165 [8172] (Branch (Branch (Branch (Branch
     (Branch Tip 8166 [933, 834] Tip) 8167 [933, 776, 834] Tip) 8178 [8186, 921] (Branch (Branch
     Tip 8179 [937, 921] Tip) 8180 [911, 921] Tip)) 8182 [937, 834] (Branch (Branch (Branch Tip
     8183 [937, 834, 921] Tip) 8188 [937, 921] Tip) 8526 [8498] (Branch (Branch Tip 8560 [8544]
     Tip) 8561 [8545] Tip))) 8562 [8546] (Branch (Branch (Branch (Branch Tip 8563 [8547] Tip) 8564
     [8548] Tip) 8565 [8549] (Branch (Branch Tip 8566 [8550] Tip) 8567 [8551] Tip)) 8568 [8552]
     (Branch (Branch (Branch Tip 8569 [8553] Tip) 8570 [8554] Tip) 8571 [8555] (Branch (Branch Tip
     8572 [8556] Tip) 8573 [8557] Tip)))))) 8574 [8558] (Branch (Branch (Branch (Branch (Branch
     (Branch (Branch Tip 8575 [8559] Tip) 8580 [8579] Tip) 9424 [9398] (Branch (Branch Tip 9425
     [9399] Tip) 9426 [9400] Tip)) 9427 [9401] (Branch (Branch (Branch Tip 9428 [9402] Tip) 9429
     [9403] Tip) 9430 [9404] (Branch (Branch Tip 9431 [9405] Tip) 9432 [9406] Tip))) 9433 [9407]
     (Branch (Branch (Branch (Branch Tip 9434 [9408] Tip) 9435 [9409] Tip) 9436 [9410] (Branch
     (Branch Tip 9437 [9411] Tip) 9438 [9412] Tip)) 9439 [9413] (Branch (Branch (Branch Tip 9440
     [9414] Tip) 9441 [9415] Tip) 9442 [9416] (Branch (Branch Tip 9443 [9417] Tip) 9444 [9418]
     Tip)))) 9445 [9419] (Branch (Branch (Branch (Branch (Branch Tip 9446 [9420] Tip) 9447 [9421]
     Tip) 9448 [9422] (Branch (Branch Tip 9449 [9423] Tip) 11312 [11264] Tip)) 11313 [11265]
     (Branch (Branch (Branch Tip 11314 [11266] Tip) 11315 [11267] Tip) 11316 [11268] (Branch
     (Branch Tip 11317 [11269] Tip) 11318 [11270] Tip))) 11319 [11271] (Branch (Branch (Branch
     (Branch Tip 11320 [11272] Tip) 11321 [11273] Tip) 11322 [11274] (Branch (Branch Tip 11323
     [11275] Tip) 11324 [11276] Tip)) 11325 [11277] (Branch (Branch (Branch Tip 11326 [11278] Tip)
     11327 [11279] Tip) 11328 [11280] (Branch (Branch Tip 11329 [11281] Tip) 11330 [11282] Tip)))))
     11331 [11283] (Branch (Branch (Branch (Branch (Branch (Branch Tip 11332 [11284] Tip) 11333
     [11285] Tip) 11334 [11286] (Branch (Branch Tip 11335 [11287] Tip) 11336 [11288] Tip)) 11337
     [11289] (Branch (Branch (Branch Tip 11338 [11290] Tip) 11339 [11291] Tip) 11340 [11292]
     (Branch (Branch Tip 11341 [11293] Tip) 11342 [11294] Tip))) 11343 [11295] (Branch (Branch
     (Branch (Branch Tip 11344 [11296] Tip) 11345 [11297] Tip) 11346 [11298] (Branch (Branch Tip
     11347 [11299] Tip) 11348 [11300] Tip)) 11349 [11301] (Branch (Branch (Branch Tip 11350 [11302]
     Tip) 11351 [11303] Tip) 11352 [11304] (Branch (Branch Tip 11353 [11305] Tip) 11354 [11306]
     Tip)))) 11355 [11307] (Branch (Branch (Branch (Branch (Branch Tip 11356 [11308] Tip) 11357
     [11309] Tip) 11358 [11310] (Branch (Branch Tip 11359 [11311] Tip) 11361 [11360] Tip)) 11365
     [570] (Branch (Branch (Branch Tip 11366 [574] Tip) 11368 [11367] Tip) 11370 [11369] (Branch
     (Branch Tip 11372 [11371] Tip) 11379 [11378] Tip))) 11382 [11381] (Branch (Branch (Branch
     (Branch Tip 11393 [11392] Tip) 11395 [11394] Tip) 11397 [11396] (Branch (Branch Tip 11399
     [11398] Tip) 11401 [11400] Tip)) 11403 [11402] (Branch (Branch (Branch Tip 11405 [11404] Tip)
     11407 [11406] Tip) 11409 [11408] (Branch Tip 11411 [11410] Tip))))))) 11413 [11412] (Branch
     (Branch (Branch (Branch (Branch (Branch (Branch (Branch Tip 11415 [11414] Tip) 11417 [11416]
     Tip) 11419 [11418] (Branch (Branch Tip 11421 [11420] Tip) 11423 [11422] Tip)) 11425 [11424]
     (Branch (Branch (Branch Tip 11427 [11426] Tip) 11429 [11428] Tip) 11431 [11430] (Branch
     (Branch Tip 11433 [11432] Tip) 11435 [11434] Tip))) 11437 [11436] (Branch (Branch (Branch
     (Branch Tip 11439 [11438] Tip) 11441 [11440] Tip) 11443 [11442] (Branch (Branch Tip 11445
     [11444] Tip) 11447 [11446] Tip)) 11449 [11448] (Branch (Branch (Branch Tip 11451 [11450] Tip)
     11453 [11452] Tip) 11455 [11454] (Branch (Branch Tip 11457 [11456] Tip) 11459 [11458] Tip))))
     11461 [11460] (Branch (Branch (Branch (Branch (Branch Tip 11463 [11462] Tip) 11465 [11464]
     Tip) 11467 [11466] (Branch (Branch Tip 11469 [11468] Tip) 11471 [11470] Tip)) 11473 [11472]
     (Branch (Branch (Branch Tip 11475 [11474] Tip) 11477 [11476] Tip) 11479 [11478] (Branch
     (Branch Tip 11481 [11480] Tip) 11483 [11482] Tip))) 11485 [11484] (Branch (Branch (Branch
     (Branch Tip 11487 [11486] Tip) 11489 [11488] Tip) 11491 [11490] (Branch (Branch Tip 11500
     [11499] Tip) 11502 [11501] Tip)) 11507 [11506] (Branch (Branch (Branch Tip 11520 [4256] Tip)
     11521 [4257] Tip) 11522 [4258] (Branch (Branch Tip 11523 [4259] Tip) 11524 [4260] Tip)))))
     11525 [4261] (Branch (Branch (Branch (Branch (Branch (Branch Tip 11526 [4262] Tip) 11527
     [4263] Tip) 11528 [4264] (Branch (Branch Tip 11529 [4265] Tip) 11530 [4266] Tip)) 11531 [4267]
     (Branch (Branch (Branch Tip 11532 [4268] Tip) 11533 [4269] Tip) 11534 [4270] (Branch (Branch
     Tip 11535 [4271] Tip) 11536 [4272] Tip))) 11537 [4273] (Branch (Branch (Branch (Branch Tip
     11538 [4274] Tip) 11539 [4275] Tip) 11540 [4276] (Branch (Branch Tip 11541 [4277] Tip) 11542
     [4278] Tip)) 11543 [4279] (Branch (Branch (Branch Tip 11544 [4280] Tip) 11545 [4281] Tip)
     11546 [4282] (Branch (Branch Tip 11547 [4283] Tip) 11548 [4284] Tip)))) 11549 [4285] (Branch
     (Branch (Branch (Branch (Branch Tip 11550 [4286] Tip) 11551 [4287] Tip) 11552 [4288] (Branch
     (Branch Tip 11553 [4289] Tip) 11554 [4290] Tip)) 11555 [4291] (Branch (Branch (Branch Tip
     11556 [4292] Tip) 11557 [4293] Tip) 11559 [4295] (Branch (Branch Tip 11565 [4301] Tip) 42561
     [42560] Tip))) 42563 [42562] (Branch (Branch (Branch (Branch Tip 42565 [42564] Tip) 42567
     [42566] Tip) 42569 [42568] (Branch (Branch Tip 42571 [42570] Tip) 42573 [42572] Tip)) 42575
     [42574] (Branch (Branch (Branch Tip 42577 [42576] Tip) 42579 [42578] Tip) 42581 [42580]
     (Branch (Branch Tip 42583 [42582] Tip) 42585 [42584] Tip)))))) 42587 [42586] (Branch (Branch
     (Branch (Branch (Branch (Branch (Branch Tip 42589 [42588] Tip) 42591 [42590] Tip) 42593
     [42592] (Branch (Branch Tip 42595 [42594] Tip) 42597 [42596] Tip)) 42599 [42598] (Branch
     (Branch (Branch Tip 42601 [42600] Tip) 42603 [42602] Tip) 42605 [42604] (Branch (Branch Tip
     42625 [42624] Tip) 42627 [42626] Tip))) 42629 [42628] (Branch (Branch (Branch (Branch Tip
     42631 [42630] Tip) 42633 [42632] Tip) 42635 [42634] (Branch (Branch Tip 42637 [42636] Tip)
     42639 [42638] Tip)) 42641 [42640] (Branch (Branch (Branch Tip 42643 [42642] Tip) 42645 [42644]
     Tip) 42647 [42646] (Branch (Branch Tip 42649 [42648] Tip) 42651 [42650] Tip)))) 42787 [42786]
     (Branch (Branch (Branch (Branch (Branch Tip 42789 [42788] Tip) 42791 [42790] Tip) 42793
     [42792] (Branch (Branch Tip 42795 [42794] Tip) 42797 [42796] Tip)) 42799 [42798] (Branch
     (Branch (Branch Tip 42803 [42802] Tip) 42805 [42804] Tip) 42807 [42806] (Branch (Branch Tip
     42809 [42808] Tip) 42811 [42810] Tip))) 42813 [42812] (Branch (Branch (Branch (Branch Tip
     42815 [42814] Tip) 42817 [42816] Tip) 42819 [42818] (Branch (Branch Tip 42821 [42820] Tip)
     42823 [42822] Tip)) 42825 [42824] (Branch (Branch (Branch Tip 42827 [42826] Tip) 42829 [42828]
     Tip) 42831 [42830] (Branch (Branch Tip 42833 [42832] Tip) 42835 [42834] Tip))))) 42837 [42836]
     (Branch (Branch (Branch (Branch (Branch (Branch Tip 42839 [42838] Tip) 42841 [42840] Tip)
     42843 [42842] (Branch (Branch Tip 42845 [42844] Tip) 42847 [42846] Tip)) 42849 [42848] (Branch
     (Branch (Branch Tip 42851 [42850] Tip) 42853 [42852] Tip) 42855 [42854] (Branch (Branch Tip
     42857 [42856] Tip) 42859 [42858] Tip))) 42861 [42860] (Branch (Branch (Branch (Branch Tip
     42863 [42862] Tip) 42874 [42873] Tip) 42876 [42875] (Branch (Branch Tip 42879 [42878] Tip)
     42881 [42880] Tip)) 42883 [42882] (Branch (Branch (Branch Tip 42885 [42884] Tip) 42887 [42886]
     Tip) 42892 [42891] (Branch (Branch Tip 42897 [42896] Tip) 42899 [42898] Tip)))) 42900 [42948]
     (Branch (Branch (Branch (Branch (Branch Tip 42903 [42902] Tip) 42905 [42904] Tip) 42907
     [42906] (Branch (Branch Tip 42909 [42908] Tip) 42911 [42910] Tip)) 42913 [42912] (Branch
     (Branch (Branch Tip 42915 [42914] Tip) 42917 [42916] Tip) 42919 [42918] (Branch (Branch Tip
     42921 [42920] Tip) 42933 [42932] Tip))) 42935 [42934] (Branch (Branch (Branch (Branch Tip
     42937 [42936] Tip) 42939 [42938] Tip) 42941 [42940] (Branch (Branch Tip 42943 [42942] Tip)
     42945 [42944] Tip)) 42947 [42946] (Branch (Branch (Branch Tip 42952 [42951] Tip) 42954 [42953]
     Tip) 42961 [42960] (Branch Tip 42967 [42966] Tip)))))))) 42969 [42968] (Branch (Branch (Branch
     (Branch (Branch (Branch (Branch (Branch (Branch Tip 42998 [42997] Tip) 43859 [42931] Tip)
     43888 [5024] (Branch (Branch Tip 43889 [5025] Tip) 43890 [5026] Tip)) 43891 [5027] (Branch
     (Branch (Branch Tip 43892 [5028] Tip) 43893 [5029] Tip) 43894 [5030] (Branch (Branch Tip 43895
     [5031] Tip) 43896 [5032] Tip))) 43897 [5033] (Branch (Branch (Branch (Branch Tip 43898 [5034]
     Tip) 43899 [5035] Tip) 43900 [5036] (Branch (Branch Tip 43901 [5037] Tip) 43902 [5038] Tip))
     43903 [5039] (Branch (Branch (Branch Tip 43904 [5040] Tip) 43905 [5041] Tip) 43906 [5042]
     (Branch (Branch Tip 43907 [5043] Tip) 43908 [5044] Tip)))) 43909 [5045] (Branch (Branch
     (Branch (Branch (Branch Tip 43910 [5046] Tip) 43911 [5047] Tip) 43912 [5048] (Branch (Branch
     Tip 43913 [5049] Tip) 43914 [5050] Tip)) 43915 [5051] (Branch (Branch (Branch Tip 43916 [5052]
     Tip) 43917 [5053] Tip) 43918 [5054] (Branch (Branch Tip 43919 [5055] Tip) 43920 [5056] Tip)))
     43921 [5057] (Branch (Branch (Branch (Branch Tip 43922 [5058] Tip) 43923 [5059] Tip) 43924
     [5060] (Branch (Branch Tip 43925 [5061] Tip) 43926 [5062] Tip)) 43927 [5063] (Branch (Branch
     (Branch Tip 43928 [5064] Tip) 43929 [5065] Tip) 43930 [5066] (Branch (Branch Tip 43931 [5067]
     Tip) 43932 [5068] Tip))))) 43933 [5069] (Branch (Branch (Branch (Branch (Branch (Branch Tip
     43934 [5070] Tip) 43935 [5071] Tip) 43936 [5072] (Branch (Branch Tip 43937 [5073] Tip) 43938
     [5074] Tip)) 43939 [5075] (Branch (Branch (Branch Tip 43940 [5076] Tip) 43941 [5077] Tip)
     43942 [5078] (Branch (Branch Tip 43943 [5079] Tip) 43944 [5080] Tip))) 43945 [5081] (Branch
     (Branch (Branch (Branch Tip 43946 [5082] Tip) 43947 [5083] Tip) 43948 [5084] (Branch (Branch
     Tip 43949 [5085] Tip) 43950 [5086] Tip)) 43951 [5087] (Branch (Branch (Branch Tip 43952 [5088]
     Tip) 43953 [5089] Tip) 43954 [5090] (Branch (Branch Tip 43955 [5091] Tip) 43956 [5092] Tip))))
     43957 [5093] (Branch (Branch (Branch (Branch (Branch Tip 43958 [5094] Tip) 43959 [5095] Tip)
     43960 [5096] (Branch (Branch Tip 43961 [5097] Tip) 43962 [5098] Tip)) 43963 [5099] (Branch
     (Branch (Branch Tip 43964 [5100] Tip) 43965 [5101] Tip) 43966 [5102] (Branch (Branch Tip 43967
     [5103] Tip) 64256 [70, 70] Tip))) 64257 [70, 73] (Branch (Branch (Branch (Branch Tip 64258
     [70, 76] Tip) 64259 [70, 70, 73] Tip) 64260 [70, 70, 76] (Branch (Branch Tip 64261 [83, 84]
     Tip) 64262 [83, 84] Tip)) 64275 [1348, 1350] (Branch (Branch (Branch Tip 64276 [1348, 1333]
     Tip) 64277 [1348, 1339] Tip) 64278 [1358, 1350] (Branch (Branch Tip 64279 [1348, 1341] Tip)
     65345 [65313] Tip)))))) 65346 [65314] (Branch (Branch (Branch (Branch (Branch (Branch (Branch
     Tip 65347 [65315] Tip) 65348 [65316] Tip) 65349 [65317] (Branch (Branch Tip 65350 [65318] Tip)
     65351 [65319] Tip)) 65352 [65320] (Branch (Branch (Branch Tip 65353 [65321] Tip) 65354 [65322]
     Tip) 65355 [65323] (Branch (Branch Tip 65356 [65324] Tip) 65357 [65325] Tip))) 65358 [65326]
     (Branch (Branch (Branch (Branch Tip 65359 [65327] Tip) 65360 [65328] Tip) 65361 [65329]
     (Branch (Branch Tip 65362 [65330] Tip) 65363 [65331] Tip)) 65364 [65332] (Branch (Branch
     (Branch Tip 65365 [65333] Tip) 65366 [65334] Tip) 65367 [65335] (Branch (Branch Tip 65368
     [65336] Tip) 65369 [65337] Tip)))) 65370 [65338] (Branch (Branch (Branch (Branch (Branch Tip
     66600 [66560] Tip) 66601 [66561] Tip) 66602 [66562] (Branch (Branch Tip 66603 [66563] Tip)
     66604 [66564] Tip)) 66605 [66565] (Branch (Branch (Branch Tip 66606 [66566] Tip) 66607 [66567]
     Tip) 66608 [66568] (Branch (Branch Tip 66609 [66569] Tip) 66610 [66570] Tip))) 66611 [66571]
     (Branch (Branch (Branch (Branch Tip 66612 [66572] Tip) 66613 [66573] Tip) 66614 [66574]
     (Branch (Branch Tip 66615 [66575] Tip) 66616 [66576] Tip)) 66617 [66577] (Branch (Branch
     (Branch Tip 66618 [66578] Tip) 66619 [66579] Tip) 66620 [66580] (Branch (Branch Tip 66621
     [66581] Tip) 66622 [66582] Tip))))) 66623 [66583] (Branch (Branch (Branch (Branch (Branch
     (Branch Tip 66624 [66584] Tip) 66625 [66585] Tip) 66626 [66586] (Branch (Branch Tip 66627
     [66587] Tip) 66628 [66588] Tip)) 66629 [66589] (Branch (Branch (Branch Tip 66630 [66590] Tip)
     66631 [66591] Tip) 66632 [66592] (Branch (Branch Tip 66633 [66593] Tip) 66634 [66594] Tip)))
     66635 [66595] (Branch (Branch (Branch (Branch Tip 66636 [66596] Tip) 66637 [66597] Tip) 66638
     [66598] (Branch (Branch Tip 66639 [66599] Tip) 66776 [66736] Tip)) 66777 [66737] (Branch
     (Branch (Branch Tip 66778 [66738] Tip) 66779 [66739] Tip) 66780 [66740] (Branch (Branch Tip
     66781 [66741] Tip) 66782 [66742] Tip)))) 66783 [66743] (Branch (Branch (Branch (Branch (Branch
     Tip 66784 [66744] Tip) 66785 [66745] Tip) 66786 [66746] (Branch (Branch Tip 66787 [66747] Tip)
     66788 [66748] Tip)) 66789 [66749] (Branch (Branch (Branch Tip 66790 [66750] Tip) 66791 [66751]
     Tip) 66792 [66752] (Branch (Branch Tip 66793 [66753] Tip) 66794 [66754] Tip))) 66795 [66755]
     (Branch (Branch (Branch (Branch Tip 66796 [66756] Tip) 66797 [66757] Tip) 66798 [66758]
     (Branch (Branch Tip 66799 [66759] Tip) 66800 [66760] Tip)) 66801 [66761] (Branch (Branch
     (Branch Tip 66802 [66762] Tip) 66803 [66763] Tip) 66804 [66764] (Branch Tip 66805 [66765]
     Tip))))))) 66806 [66766] (Branch (Branch (Branch (Branch (Branch (Branch (Branch (Branch Tip
     66807 [66767] Tip) 66808 [66768] Tip) 66809 [66769] (Branch (Branch Tip 66810 [66770] Tip)
     66811 [66771] Tip)) 66967 [66928] (Branch (Branch (Branch Tip 66968 [66929] Tip) 66969 [66930]
     Tip) 66970 [66931] (Branch (Branch Tip 66971 [66932] Tip) 66972 [66933] Tip))) 66973 [66934]
     (Branch (Branch (Branch (Branch Tip 66974 [66935] Tip) 66975 [66936] Tip) 66976 [66937]
     (Branch (Branch Tip 66977 [66938] Tip) 66979 [66940] Tip)) 66980 [66941] (Branch (Branch
     (Branch Tip 66981 [66942] Tip) 66982 [66943] Tip) 66983 [66944] (Branch (Branch Tip 66984
     [66945] Tip) 66985 [66946] Tip)))) 66986 [66947] (Branch (Branch (Branch (Branch (Branch Tip
     66987 [66948] Tip) 66988 [66949] Tip) 66989 [66950] (Branch (Branch Tip 66990 [66951] Tip)
     66991 [66952] Tip)) 66992 [66953] (Branch (Branch (Branch Tip 66993 [66954] Tip) 66995 [66956]
     Tip) 66996 [66957] (Branch (Branch Tip 66997 [66958] Tip) 66998 [66959] Tip))) 66999 [66960]
     (Branch (Branch (Branch (Branch Tip 67000 [66961] Tip) 67001 [66962] Tip) 67003 [66964]
     (Branch (Branch Tip 67004 [66965] Tip) 68800 [68736] Tip)) 68801 [68737] (Branch (Branch
     (Branch Tip 68802 [68738] Tip) 68803 [68739] Tip) 68804 [68740] (Branch (Branch Tip 68805
     [68741] Tip) 68806 [68742] Tip))))) 68807 [68743] (Branch (Branch (Branch (Branch (Branch
     (Branch Tip 68808 [68744] Tip) 68809 [68745] Tip) 68810 [68746] (Branch (Branch Tip 68811
     [68747] Tip) 68812 [68748] Tip)) 68813 [68749] (Branch (Branch (Branch Tip 68814 [68750] Tip)
     68815 [68751] Tip) 68816 [68752] (Branch (Branch Tip 68817 [68753] Tip) 68818 [68754] Tip)))
     68819 [68755] (Branch (Branch (Branch (Branch Tip 68820 [68756] Tip) 68821 [68757] Tip) 68822
     [68758] (Branch (Branch Tip 68823 [68759] Tip) 68824 [68760] Tip)) 68825 [68761] (Branch
     (Branch (Branch Tip 68826 [68762] Tip) 68827 [68763] Tip) 68828 [68764] (Branch (Branch Tip
     68829 [68765] Tip) 68830 [68766] Tip)))) 68831 [68767] (Branch (Branch (Branch (Branch (Branch
     Tip 68832 [68768] Tip) 68833 [68769] Tip) 68834 [68770] (Branch (Branch Tip 68835 [68771] Tip)
     68836 [68772] Tip)) 68837 [68773] (Branch (Branch (Branch Tip 68838 [68774] Tip) 68839 [68775]
     Tip) 68840 [68776] (Branch (Branch Tip 68841 [68777] Tip) 68842 [68778] Tip))) 68843 [68779]
     (Branch (Branch (Branch (Branch Tip 68844 [68780] Tip) 68845 [68781] Tip) 68846 [68782]
     (Branch (Branch Tip 68847 [68783] Tip) 68848 [68784] Tip)) 68849 [68785] (Branch (Branch
     (Branch Tip 68850 [68786] Tip) 71872 [71840] Tip) 71873 [71841] (Branch Tip 71874 [71842]
     Tip)))))) 71875 [71843] (Branch (Branch (Branch (Branch (Branch (Branch (Branch Tip 71876
     [71844] Tip) 71877 [71845] Tip) 71878 [71846] (Branch (Branch Tip 71879 [71847] Tip) 71880
     [71848] Tip)) 71881 [71849] (Branch (Branch (Branch Tip 71882 [71850] Tip) 71883 [71851] Tip)
     71884 [71852] (Branch (Branch Tip 71885 [71853] Tip) 71886 [71854] Tip))) 71887 [71855]
     (Branch (Branch (Branch (Branch Tip 71888 [71856] Tip) 71889 [71857] Tip) 71890 [71858]
     (Branch (Branch Tip 71891 [71859] Tip) 71892 [71860] Tip)) 71893 [71861] (Branch (Branch
     (Branch Tip 71894 [71862] Tip) 71895 [71863] Tip) 71896 [71864] (Branch (Branch Tip 71897
     [71865] Tip) 71898 [71866] Tip)))) 71899 [71867] (Branch (Branch (Branch (Branch (Branch Tip
     71900 [71868] Tip) 71901 [71869] Tip) 71902 [71870] (Branch (Branch Tip 71903 [71871] Tip)
     93792 [93760] Tip)) 93793 [93761] (Branch (Branch (Branch Tip 93794 [93762] Tip) 93795 [93763]
     Tip) 93796 [93764] (Branch (Branch Tip 93797 [93765] Tip) 93798 [93766] Tip))) 93799 [93767]
     (Branch (Branch (Branch (Branch Tip 93800 [93768] Tip) 93801 [93769] Tip) 93802 [93770]
     (Branch (Branch Tip 93803 [93771] Tip) 93804 [93772] Tip)) 93805 [93773] (Branch (Branch
     (Branch Tip 93806 [93774] Tip) 93807 [93775] Tip) 93808 [93776] (Branch (Branch Tip 93809
     [93777] Tip) 93810 [93778] Tip))))) 93811 [93779] (Branch (Branch (Branch (Branch (Branch
     (Branch Tip 93812 [93780] Tip) 93813 [93781] Tip) 93814 [93782] (Branch (Branch Tip 93815
     [93783] Tip) 93816 [93784] Tip)) 93817 [93785] (Branch (Branch (Branch Tip 93818 [93786] Tip)
     93819 [93787] Tip) 93820 [93788] (Branch (Branch Tip 93821 [93789] Tip) 93822 [93790] Tip)))
     93823 [93791] (Branch (Branch (Branch (Branch Tip 125218 [125184] Tip) 125219 [125185] Tip)
     125220 [125186] (Branch (Branch Tip 125221 [125187] Tip) 125222 [125188] Tip)) 125223 [125189]
     (Branch (Branch (Branch Tip 125224 [125190] Tip) 125225 [125191] Tip) 125226 [125192] (Branch
     (Branch Tip 125227 [125193] Tip) 125228 [125194] Tip)))) 125229 [125195] (Branch (Branch
     (Branch (Branch (Branch Tip 125230 [125196] Tip) 125231 [125197] Tip) 125232 [125198] (Branch
     (Branch Tip 125233 [125199] Tip) 125234 [125200] Tip)) 125235 [125201] (Branch (Branch (Branch
     Tip 125236 [125202] Tip) 125237 [125203] Tip) 125238 [125204] (Branch (Branch Tip 125239
     [125205] Tip) 125240 [125206] Tip))) 125241 [125207] (Branch (Branch (Branch (Branch Tip
     125242 [125208] Tip) 125243 [125209] Tip) 125244 [125210] (Branch (Branch Tip 125245 [125211]
     Tip) 125246 [125212] Tip)) 125247 [125213] (Branch (Branch (Branch Tip 125248 [125214] Tip)
     125249 [125215] Tip) 125250 [125216] (Branch Tip 125251 [125217] Tip))))))))))"

definition upper_char :: "nat \<Rightarrow> nat list" where
  "upper_char c = (case tree_lookup upper_tree c of Some u \<Rightarrow> u | None \<Rightarrow> [c])"

definition py_upper :: "pystr \<Rightarrow> pystr" where
  "py_upper s = concat (map upper_char s)"

subsection \<open>Floats\<close>

text \<open>
  A Python \<^verbatim>\<open>float\<close> is a finite number, one of the two infinities, or NaN.
  Finite arithmetic is exact (rounding and signed zeros are not modelled); the special
  values follow IEEE 754 as Python exposes them. Comparisons with NaN are false.
\<close>

datatype pyfloat = Fin real | PInf | NInf | NaN

text \<open>The smallest magnitude that rounds beyond the largest finite double.\<close>

definition dbl_overflow :: real where
  "dbl_overflow = 2 ^ 1024 - 2 ^ 970"

fun f_gt :: "pyfloat \<Rightarrow> pyfloat \<Rightarrow> bool" where
  "f_gt NaN _ = False"
| "f_gt _ NaN = False"
| "f_gt (Fin a) (Fin b) = (a > b)"
| "f_gt PInf PInf = False"
| "f_gt PInf _ = True"
| "f_gt _ PInf = False"
| "f_gt NInf _ = False"
| "f_gt _ NInf = True"

fun f_neg :: "pyfloat \<Rightarrow> pyfloat" where
  "f_neg (Fin a) = Fin (- a)"
| "f_neg PInf = NInf"
| "f_neg NInf = PInf"
| "f_neg NaN = NaN"

fun f_add :: "pyfloat \<Rightarrow> pyfloat \<Rightarrow> pyfloat" where
  "f_add NaN _ = NaN"
| "f_add _ NaN = NaN"
| "f_add (Fin a) (Fin b) = Fin (a + b)"
| "f_add PInf NInf = NaN"
| "f_add NInf PInf = NaN"
| "f_add PInf _ = PInf"
| "f_add _ PInf = PInf"
| "f_add NInf _ = NInf"
| "f_add _ NInf = NInf"

definition f_sub :: "pyfloat \<Rightarrow> pyfloat \<Rightarrow> pyfloat" where
  "f_sub a b = f_add a (f_neg b)"

text \<open>The sign of a float that is not NaN: \<open>-1\<close>, \<open>0\<close> or \<open>1\<close>.\<close>

fun f_sign :: "pyfloat \<Rightarrow> int" where
  "f_sign (Fin a) = (if a < 0 then - 1 else if a = 0 then 0 else 1)"
| "f_sign PInf = 1"
| "f_sign NInf = - 1"
| "f_sign NaN = 0"

definition inf_of_sign :: "int \<Rightarrow> pyfloat" where
  "inf_of_sign s = (if s < 0 then NInf else if s = 0 then NaN else PInf)"

fun f_mul :: "pyfloat \<Rightarrow> pyfloat \<Rightarrow> pyfloat" where
  "f_mul NaN _ = NaN"
| "f_mul _ NaN = NaN"
| "f_mul (Fin a) (Fin b) = Fin (a * b)"
| "f_mul a b = inf_of_sign (f_sign a * f_sign b)"

text \<open>
  True division of floats: a zero divisor raises \<^verbatim>\<open>ZeroDivisionError\<close>
  whatever the dividend is.
\<close>

fun f_truediv :: "pyfloat \<Rightarrow> pyfloat \<Rightarrow> exn + pyfloat" where
  "f_truediv a (Fin b) =
     (if b = 0 then Inl ZeroDivisionError
      else case a of
        Fin x \<Rightarrow> Inr (Fin (x / b))
      | NaN \<Rightarrow> Inr NaN
      | _ \<Rightarrow> Inr (inf_of_sign (f_sign a * f_sign (Fin b))))"
| "f_truediv NaN _ = Inr NaN"
| "f_truediv _ NaN = Inr NaN"
| "f_truediv (Fin a) _ = Inr (Fin 0)"
| "f_truediv _ _ = Inr NaN"

text \<open>
  True division of two counts (\<^verbatim>\<open>int / int\<close>); the counts of this program
  are bounded by a list length, so the quotient is finite.
\<close>

definition int_truediv :: "nat \<Rightarrow> nat \<Rightarrow> exn + pyfloat" where
  "int_truediv a b = (if b = 0 then Inl ZeroDivisionError else Inr (Fin (real a / real b)))"

text \<open>
  \<^verbatim>\<open>max(a, b)\<close> keeps its first argument unless the second is greater.
\<close>

definition py_max :: "pyfloat \<Rightarrow> pyfloat \<Rightarrow> pyfloat" where
  "py_max a b = (if f_gt b a then b else a)"

text \<open>
  \<^verbatim>\<open>math.log\<close> raises \<^verbatim>\<open>ValueError\<close> outside its domain;
  \<^verbatim>\<open>math.exp\<close> raises \<^verbatim>\<open>OverflowError\<close> when the result is too large
  for a double.
\<close>

fun math_log :: "pyfloat \<Rightarrow> exn + pyfloat" where
  "math_log (Fin x) = (if x \<le> 0 then Inl ValueError else Inr (Fin (ln x)))"
| "math_log PInf = Inr PInf"
| "math_log NInf = Inl ValueError"
| "math_log NaN = Inr NaN"

fun math_exp :: "pyfloat \<Rightarrow> exn + pyfloat" where
  "math_exp (Fin x) = (if dbl_overflow \<le> exp x then Inl OverflowError else Inr (Fin (exp x)))"
| "math_exp PInf = Inr PInf"
| "math_exp NInf = Inr (Fin 0)"
| "math_exp NaN = Inr NaN"

section \<open>\<^verbatim>\<open>ace/metrics.py\<close>: the metrics calculator\<close>

record metrics_calculator =
  predictions :: "pystr list"
  labels :: "pystr list"
  probabilities :: "pyfloat list"

type_synonym metrics = "pystr \<rightharpoonup> pyfloat"

text \<open>
  \<^verbatim>\<open>MetricsCalculator.__init__\<close> only calls \<^verbatim>\<open>reset\<close>, which assigns
  three empty lists.
\<close>

definition reset :: "metrics_calculator \<Rightarrow> metrics_calculator" where
  "reset c = c\<lparr>predictions := [], labels := [], probabilities := []\<rparr>"

definition MetricsCalculator_init :: metrics_calculator where
  "MetricsCalculator_init = \<lparr>predictions = [], labels = [], probabilities = []\<rparr>"

definition add :: "metrics_calculator \<Rightarrow> pystr \<Rightarrow> pystr \<Rightarrow> pyfloat option \<Rightarrow> metrics_calculator" where
  "add c prediction label probability =
     (let c1 = c\<lparr>predictions := predictions c @ [prediction]\<rparr>;
          c2 = c1\<lparr>labels := labels c1 @ [label]\<rparr>
      in case probability of
           None \<Rightarrow> c2
         | Some p \<Rightarrow> c2\<lparr>probabilities := probabilities c2 @ [p]\<rparr>)"

text \<open>
  The positive class: \<^verbatim>\<open>sorted(set(self.labels))\<close> and the branches
  that follow it.
\<close>

definition positive_class :: "pystr list \<Rightarrow> pystr" where
  "positive_class ls =
     (let unique_classes = sort (remdups ls) in
      if length unique_classes \<ge> 2 then
        (if str ''X'' \<in> set unique_classes then str ''X''
         else if length unique_classes = 2 then unique_classes ! 1
         else unique_classes ! 0)
      else if length unique_classes = 1 then unique_classes ! 0
      else str ''X'')"

text \<open>
  \<^verbatim>\<open>sum(1 for p, l in zip(predictions, labels) if cond(p, l))\<close>.
\<close>

definition count_pairs :: "(pystr \<Rightarrow> pystr \<Rightarrow> bool) \<Rightarrow> pystr list \<Rightarrow> pystr list \<Rightarrow> nat" where
  "count_pairs cond ps ls = length (filter (\<lambda>(p, l). cond p l) (zip ps ls))"

text \<open>
  The loop that accumulates \<^verbatim>\<open>log_likelihood\<close> over
  \<^verbatim>\<open>zip(probabilities, predictions, labels)\<close>.
\<close>

fun log_likelihood :: "pyfloat \<Rightarrow> (pyfloat \<times> pystr \<times> pystr) list \<Rightarrow> exn + pyfloat" where
  "log_likelihood acc [] = Inr acc"
| "log_likelihood acc ((prob, pred, label) # rest) =
     (let actual_prob =
            (if pred = label then py_max prob (Fin (1 / 10 ^ 10))
             else py_max (f_sub (Fin 1) prob) (Fin (1 / 10 ^ 10)))
      in bind_exn (math_log actual_prob) (\<lambda>lg. log_likelihood (f_add acc lg) rest))"

definition perplexity :: "metrics_calculator \<Rightarrow> pyfloat \<Rightarrow> exn + pyfloat" where
  "perplexity c accuracy =
     (if probabilities c \<noteq> [] \<and> length (probabilities c) = length (predictions c) then
        bind_exn (log_likelihood (Fin 0) (zip (probabilities c) (zip (predictions c) (labels c))))
          (\<lambda>ll. bind_exn (f_truediv (f_neg ll) (Fin (real (length (probabilities c)))))
            math_exp)
      else if f_gt accuracy (Fin 0) then
        bind_exn (math_log (py_max accuracy (Fin (1 / 100)))) (\<lambda>lg. math_exp (f_neg lg))
      else Inr PInf)"

definition compute :: "metrics_calculator \<Rightarrow> exn + metrics" where
  "compute c =
     (if predictions c = [] \<or> labels c = [] then
        Inr [str ''accuracy'' \<mapsto> Fin 0, str ''precision'' \<mapsto> Fin 0, str ''recall'' \<mapsto> Fin 0,
             str ''f1'' \<mapsto> Fin 0, str ''perplexity'' \<mapsto> PInf]
      else
        let correct = count_pairs (\<lambda>p l. p = l) (predictions c) (labels c) in
        bind_exn (int_truediv correct (length (predictions c))) (\<lambda>accuracy.
        let pos = positive_class (labels c);
            tp = count_pairs (\<lambda>p l. p = pos \<and> l = pos) (predictions c) (labels c);
            fp = count_pairs (\<lambda>p l. p = pos \<and> l \<noteq> pos) (predictions c) (labels c);
            fn = count_pairs (\<lambda>p l. p \<noteq> pos \<and> l = pos) (predictions c) (labels c);
            tn = count_pairs (\<lambda>p l. p \<noteq> pos \<and> l \<noteq> pos) (predictions c) (labels c)
        in
        bind_exn (if tp + fp > 0 then int_truediv tp (tp + fp) else Inr (Fin 0)) (\<lambda>precision.
        bind_exn (if tp + fn > 0 then int_truediv tp (tp + fn) else Inr (Fin 0)) (\<lambda>recall.
        bind_exn (if f_gt (f_add precision recall) (Fin 0)
                  then f_truediv (f_mul (f_mul (Fin 2) precision) recall) (f_add precision recall)
                  else Inr (Fin 0)) (\<lambda>f1.
        bind_exn (perplexity c accuracy) (\<lambda>ppl.
        Inr [str ''accuracy'' \<mapsto> accuracy, str ''precision'' \<mapsto> precision, str ''recall'' \<mapsto> recall,
             str ''f1'' \<mapsto> f1, str ''perplexity'' \<mapsto> ppl]))))))"

section \<open>\<^verbatim>\<open>ace/patent.py\<close>: samples, results and the task environment\<close>

subsection \<open>Samples\<close>

text \<open>
  Modelled from the spec: the base class \<^verbatim>\<open>Sample\<close> of
  \<^verbatim>\<open>ace/adaptation.py\<close>, which is not among the sources. The spec gives a
  sample free-form fields, a \<^verbatim>\<open>ground_truth\<close> label, a \<^verbatim>\<open>context\<close>
  string and a \<^verbatim>\<open>metadata\<close> mapping; \<^verbatim>\<open>evaluate\<close> reads
  \<^verbatim>\<open>sample.ground_truth or ""\<close>, so the label may be \<^verbatim>\<open>None\<close>.
  The values of \<^verbatim>\<open>metadata\<close> are taken to be strings; the field
  \<^verbatim>\<open>context\<close> is named \<open>sample_context\<close>, since \<open>context\<close> is reserved.
\<close>

record sample =
  question :: pystr
  sample_context :: pystr
  ground_truth :: "pystr option"
  metadata :: "pystr \<rightharpoonup> pystr"

text \<open>
  \<^verbatim>\<open>class PatentSample(Sample)\<close> adds two fields; \<^verbatim>\<open>paragraph\<close> is
  named \<open>patent_paragraph\<close>, since \<open>paragraph\<close> is reserved.
\<close>

record patent_sample = sample +
  claim :: pystr
  patent_paragraph :: pystr

text \<open>
  \<^verbatim>\<open>__post_init__\<close>: an empty question is replaced by the f-string
  \<^verbatim>\<open>"Claim: {claim}\n\nParagraph: {paragraph}"\<close>.
\<close>

definition post_init :: "patent_sample \<Rightarrow> patent_sample" where
  "post_init self =
     (if question self = [] then
        self\<lparr>question :=
          str ''Claim: '' @ claim self @ [10, 10] @ str ''Paragraph: '' @ patent_paragraph self\<rparr>
      else self)"

text \<open>
  The dataclass constructor: the generated \<^verbatim>\<open>__init__\<close> stores the
  arguments and then calls \<^verbatim>\<open>__post_init__\<close>.
\<close>

definition PatentSample ::
  "pystr \<Rightarrow> pystr \<Rightarrow> pystr \<Rightarrow> pystr option \<Rightarrow> pystr \<Rightarrow> (pystr \<rightharpoonup> pystr) \<Rightarrow> patent_sample" where
  "PatentSample cl par q gt ctx md =
     post_init \<lparr>question = q, sample_context = ctx, ground_truth = gt, metadata = md,
                claim = cl, patent_paragraph = par\<rparr>"

text \<open>
  What \<^verbatim>\<open>evaluate\<close> may be handed: an instance of \<^verbatim>\<open>PatentSample\<close>
  or an instance of the base class only.
\<close>

datatype sample_arg = Patent patent_sample | Base sample

subsection \<open>Generator output and environment results\<close>

text \<open>
  Modelled from the spec: \<^verbatim>\<open>GeneratorOutput\<close> of \<^verbatim>\<open>ace/roles.py\<close>,
  which is not among the sources: reasoning, final answer, the bullet ids used, and
  \<^verbatim>\<open>raw\<close>, a mapping from names to arbitrary values of type \<open>'v\<close>.
\<close>

record 'v generator_output =
  reasoning :: pystr
  final_answer :: pystr
  bullet_ids :: "pystr list"
  raw :: "pystr \<rightharpoonup> 'v"

text \<open>
  Modelled from the spec: \<^verbatim>\<open>EnvironmentResult\<close> of
  \<^verbatim>\<open>ace/adaptation.py\<close>: feedback, ground truth and metrics.
  \<^verbatim>\<open>PatentEnvironmentResult\<close> extends it in \<^verbatim>\<open>ace/patent.py\<close>.
\<close>

record environment_result =
  feedback :: pystr
  result_ground_truth :: pystr
  metrics :: metrics

record patent_environment_result = environment_result +
  prediction :: pystr
  probability :: "pyfloat option"

datatype eval_result =
  Plain_result environment_result
| Patent_result patent_environment_result

fun result_feedback :: "eval_result \<Rightarrow> pystr" where
  "result_feedback (Plain_result r) = feedback r"
| "result_feedback (Patent_result r) = feedback r"

fun result_metrics :: "eval_result \<Rightarrow> metrics" where
  "result_metrics (Plain_result r) = metrics r"
| "result_metrics (Patent_result r) = metrics r"

subsection \<open>The environment\<close>

record environment =
  metrics_calculator :: metrics_calculator
  step_metrics :: "metrics list"

definition PatentMatchEnvironment_init :: environment where
  "PatentMatchEnvironment_init =
     \<lparr>metrics_calculator = MetricsCalculator_init, step_metrics = []\<rparr>"

definition reset_metrics :: "environment \<Rightarrow> environment" where
  "reset_metrics self =
     (let self1 = self\<lparr>metrics_calculator := reset (metrics_calculator self)\<rparr>
      in self1\<lparr>step_metrics := []\<rparr>)"

text \<open>\<^verbatim>\<open>s.strip().upper()\<close>, applied to both the label and the answer.\<close>

definition strip_upper :: "pystr \<Rightarrow> pystr" where
  "strip_upper s = py_upper (py_strip s)"

text \<open>
  Lines 75 to 83: a sample that is not a \<^verbatim>\<open>PatentSample\<close> is converted
  into a new one; the claim and the paragraph come from its metadata.
\<close>

definition as_patent_sample :: "sample_arg \<Rightarrow> patent_sample" where
  "as_patent_sample s =
     (case s of
        Patent p \<Rightarrow> p
      | Base b \<Rightarrow>
          PatentSample
            (case metadata b (str ''claim'') of Some v \<Rightarrow> v | None \<Rightarrow> [])
            (case metadata b (str ''paragraph'') of Some v \<Rightarrow> v | None \<Rightarrow> [])
            []
            (ground_truth b) (sample_context b) (metadata b))"

text \<open>
  Lines 88 to 93: the probability, with the built-in \<^verbatim>\<open>float\<close> as the
  parameter \<open>to_float\<close>.
\<close>

definition extract_probability ::
  "('v \<Rightarrow> exn + pyfloat) \<Rightarrow> (pystr \<rightharpoonup> 'v) \<Rightarrow> exn + pyfloat option" where
  "extract_probability to_float r =
     (case r (str ''confidence'') of
        Some v \<Rightarrow> bind_exn (to_float v) (\<lambda>f. Inr (Some f))
      | None \<Rightarrow>
          (case r (str ''probability'') of
             Some v \<Rightarrow> bind_exn (to_float v) (\<lambda>f. Inr (Some f))
           | None \<Rightarrow> Inr None))"

definition invalid_feedback :: "pystr \<Rightarrow> pystr" where
  "invalid_feedback pred =
     str ''Invalid classification '' @ [39] @ pred @ [39]
       @ str ''. Must be '' @ [39] @ str ''X'' @ [39] @ str '' (match) or ''
       @ [39] @ str ''A'' @ [39] @ str '' (no match).''"

definition build_feedback :: "bool \<Rightarrow> pystr \<Rightarrow> pystr" where
  "build_feedback correct pred =
     (if correct then
        (if pred = str ''X''
         then str ''Correct: The paragraph does break novelty (X classification)''
         else str ''Correct: The paragraph does not break novelty (A classification)'')
      else
        (if pred = str ''X''
         then str ''Incorrect: Classified as X (match) but should be A (no match). ''
              @ str ''The paragraph does not contain all key features of the claim.''
         else str ''Incorrect: Classified as A (no match) but should be X (match). ''
              @ str ''The paragraph actually describes the same invention and breaks novelty.''))"

text \<open>
  \<^verbatim>\<open>PatentMatchEnvironment.evaluate\<close>. The environment is passed in and
  returned, also when an exception is raised: it is then the environment as mutated up
  to the raise.
\<close>

definition evaluate ::
  "('v \<Rightarrow> exn + pyfloat) \<Rightarrow> environment \<Rightarrow> sample_arg \<Rightarrow> 'v generator_output
     \<Rightarrow> environment \<times> (exn + eval_result)" where
  "evaluate to_float self sample0 generator_output =
     (let sample = as_patent_sample sample0;
          gt = strip_upper (case ground_truth sample of None \<Rightarrow> [] | Some s \<Rightarrow> s);
          pred = strip_upper (final_answer generator_output)
      in case extract_probability to_float (raw generator_output) of
           Inl e \<Rightarrow> (self, Inl e)
         | Inr prob \<Rightarrow>
             if pred \<notin> {str ''X'', str ''A''} then
               (self, Inr (Plain_result
                  \<lparr>feedback = invalid_feedback pred, result_ground_truth = gt,
                   metrics = [str ''accuracy'' \<mapsto> Fin 0, str ''error'' \<mapsto> Fin 1]\<rparr>))
             else
               let correct = (pred = gt);
                   fb = build_feedback correct pred;
                   self1 = self\<lparr>metrics_calculator := add (metrics_calculator self) pred gt prob\<rparr>
               in (case compute (metrics_calculator self1) of
                     Inl e \<Rightarrow> (self1, Inl e)
                   | Inr current_metrics \<Rightarrow>
                       (self1\<lparr>step_metrics := step_metrics self1 @ [current_metrics]\<rparr>,
                        Inr (Patent_result
                          \<lparr>feedback = fb, result_ground_truth = gt, metrics = current_metrics,
                           prediction = pred, probability = prob\<rparr>))))"

text \<open>
  An instance of \<open>'v\<close>: the JSON values \<^verbatim>\<open>null\<close>, booleans, integers and
  floats, with \<^verbatim>\<open>float\<close> on them. An integer is rounded to the nearest
  number with 53 significant bits, ties to the even one, and raises
  \<^verbatim>\<open>OverflowError\<close> when the result is too large for a double. Strings are not
  part of this instance.
\<close>

datatype pyval = PyNone | PyBool bool | PyInt int | PyFloat pyfloat

text \<open>\<^verbatim>\<open>int.bit_length()\<close> of a natural number.\<close>

fun bit_length :: "nat \<Rightarrow> nat" where
  "bit_length n = (if n = 0 then 0 else Suc (bit_length (n div 2)))"

definition round_to_double :: "nat \<Rightarrow> nat" where
  "round_to_double a =
     (if bit_length a \<le> 53 then a
      else
        let e = bit_length a - 53;
            q = a div 2 ^ e;
            r = a mod 2 ^ e;
            half = 2 ^ (e - 1);
            m = (if half < r \<or> (r = half \<and> odd q) then q + 1 else q)
        in m * 2 ^ e)"

fun py_float :: "pyval \<Rightarrow> exn + pyfloat" where
  "py_float PyNone = Inl TypeError"
| "py_float (PyBool b) = Inr (Fin (if b then 1 else 0))"
| "py_float (PyInt n) =
     (let v = round_to_double (nat \<bar>n\<bar>) in
      if 2 ^ 1024 \<le> v then Inl OverflowError
      else Inr (Fin (if n < 0 then - real v else real v)))"
| "py_float (PyFloat f) = Inr f"

subsection \<open>The sample as an object in a store\<close>

text \<open>
  \<^verbatim>\<open>evaluate\<close> receives a reference to the caller's sample. To state what
  it does to that object, samples live in a store: a list of objects, the address of
  an object being its index. Creating an object appends it to the store;
  \<^verbatim>\<open>__post_init__\<close> is a field assignment on the object just created.
\<close>

type_synonym store = "sample_arg list"

definition store_post_init :: "store \<Rightarrow> nat \<Rightarrow> store" where
  "store_post_init h a =
     (case h ! a of
        Patent p \<Rightarrow> h[a := Patent (post_init p)]
      | Base b \<Rightarrow> h)"

definition store_new_PatentSample ::
  "store \<Rightarrow> pystr \<Rightarrow> pystr \<Rightarrow> pystr \<Rightarrow> pystr option \<Rightarrow> pystr \<Rightarrow> (pystr \<rightharpoonup> pystr)
     \<Rightarrow> store \<times> nat" where
  "store_new_PatentSample h cl par q gt ctx md =
     (let a = length h;
          h1 = h @ [Patent \<lparr>question = q, sample_context = ctx, ground_truth = gt,
                            metadata = md, claim = cl, patent_paragraph = par\<rparr>]
      in (store_post_init h1 a, a))"

text \<open>
  \<^verbatim>\<open>evaluate\<close> on a reference \<open>a\<close> into the store \<open>h\<close>: lines 75 to 83
  rebind the local name \<^verbatim>\<open>sample\<close> to a new object when the caller's object
  is not a \<^verbatim>\<open>PatentSample\<close>; the rest of the method only reads
  \<^verbatim>\<open>sample.ground_truth\<close>.
\<close>

definition evaluate_store ::
  "('v \<Rightarrow> exn + pyfloat) \<Rightarrow> store \<Rightarrow> environment \<Rightarrow> nat \<Rightarrow> 'v generator_output
     \<Rightarrow> store \<times> environment \<times> (exn + eval_result)" where
  "evaluate_store to_float h self a generator_output =
     (let (h1, a1) =
            (case h ! a of
               Patent p \<Rightarrow> (h, a)
             | Base b \<Rightarrow>
                 store_new_PatentSample h
                   (case metadata b (str ''claim'') of Some v \<Rightarrow> v | None \<Rightarrow> [])
                   (case metadata b (str ''paragraph'') of Some v \<Rightarrow> v | None \<Rightarrow> [])
                   []
                   (ground_truth b) (sample_context b) (metadata b))
      in (h1, evaluate to_float self (h1 ! a1) generator_output))"

section \<open>The Playbook\<close>

text \<open>
  Modelled from the spec: the Playbook of \<^verbatim>\<open>ace/playbook.py\<close>, which is not
  among the sources (only its callers in the tests and the demo are). The spec describes
  it as a mapping from section name to an ordered sequence of bullets, plus a
  monotonically increasing id counter; \<^verbatim>\<open>add\<close> creates a bullet with a fresh id
  and never fails, \<^verbatim>\<open>update\<close>, \<^verbatim>\<open>tag\<close> and \<^verbatim>\<open>remove\<close> fail with
  \<^verbatim>\<open>UnknownBulletError\<close> on an unknown id. The id of a new bullet is taken to be
  the value of the counter, which is then incremented. The field \<^verbatim>\<open>id\<close> is named
  \<open>bullet_id\<close> and \<^verbatim>\<open>section\<close> is named \<open>bullet_section\<close>.
\<close>

record bullet =
  bullet_id :: nat
  bullet_section :: pystr
  content :: pystr
  helpful_count :: nat
  harmful_count :: nat

record playbook =
  sections :: "(pystr \<times> bullet list) list"
  next_id :: nat

datatype playbook_error = UnknownBulletError

definition Playbook_init :: playbook where
  "Playbook_init = \<lparr>sections = [], next_id = 0\<rparr>"

definition bullets :: "playbook \<Rightarrow> bullet list" where
  "bullets p = concat (map snd (sections p))"

fun insert_bullet :: "pystr \<Rightarrow> bullet \<Rightarrow> (pystr \<times> bullet list) list \<Rightarrow> (pystr \<times> bullet list) list" where
  "insert_bullet sec b [] = [(sec, [b])]"
| "insert_bullet sec b ((s, bs) # rest) =
     (if s = sec then (s, bs @ [b]) # rest else (s, bs) # insert_bullet sec b rest)"

definition playbook_add :: "playbook \<Rightarrow> pystr \<Rightarrow> pystr \<Rightarrow> playbook \<times> nat" where
  "playbook_add p sec txt =
     (let i = next_id p;
          b = \<lparr>bullet_id = i, bullet_section = sec, content = txt,
               helpful_count = 0, harmful_count = 0\<rparr>
      in (p\<lparr>sections := insert_bullet sec b (sections p), next_id := i + 1\<rparr>, i))"

definition known :: "playbook \<Rightarrow> nat \<Rightarrow> bool" where
  "known p i = (i \<in> set (map bullet_id (bullets p)))"

definition map_bullet :: "nat \<Rightarrow> (bullet \<Rightarrow> bullet) \<Rightarrow> playbook \<Rightarrow> playbook" where
  "map_bullet i f p =
     p\<lparr>sections := map (\<lambda>(s, bs). (s, map (\<lambda>b. if bullet_id b = i then f b else b) bs)) (sections p)\<rparr>"

definition playbook_update :: "playbook \<Rightarrow> nat \<Rightarrow> pystr \<Rightarrow> playbook_error + playbook" where
  "playbook_update p i txt =
     (if known p i then Inr (map_bullet i (\<lambda>b. b\<lparr>content := txt\<rparr>) p)
      else Inl UnknownBulletError)"

definition playbook_tag :: "playbook \<Rightarrow> nat \<Rightarrow> bool \<Rightarrow> playbook_error + playbook" where
  "playbook_tag p i helpful =
     (if known p i then
        Inr (map_bullet i
          (\<lambda>b. if helpful then b\<lparr>helpful_count := helpful_count b + 1\<rparr>
                else b\<lparr>harmful_count := harmful_count b + 1\<rparr>) p)
      else Inl UnknownBulletError)"

definition playbook_remove :: "playbook \<Rightarrow> nat \<Rightarrow> playbook_error + playbook" where
  "playbook_remove p i =
     (if known p i then
        Inr (p\<lparr>sections := map (\<lambda>(s, bs). (s, filter (\<lambda>b. bullet_id b \<noteq> i) bs)) (sections p)\<rparr>)
      else Inl UnknownBulletError)"

datatype operation =
  ADD pystr pystr
| UPDATE nat pystr
| TAG nat bool
| REMOVE nat

text \<open>
  Applying a batch: operations are applied in order; one that names an unknown id is
  dropped and counted. The result is the playbook, the ids returned by the ADD
  operations in order, and the number of dropped operations.
\<close>

fun apply_operations :: "playbook \<Rightarrow> operation list \<Rightarrow> playbook \<times> nat list \<times> nat" where
  "apply_operations p [] = (p, [], 0)"
| "apply_operations p (ADD sec txt # ops) =
     (let (p1, i) = playbook_add p sec txt;
          (p2, ids, dropped) = apply_operations p1 ops
      in (p2, i # ids, dropped))"
| "apply_operations p (UPDATE i txt # ops) =
     (case playbook_update p i txt of
        Inr p1 \<Rightarrow> apply_operations p1 ops
      | Inl e \<Rightarrow> (let (p2, ids, dropped) = apply_operations p ops in (p2, ids, dropped + 1)))"
| "apply_operations p (TAG i helpful # ops) =
     (case playbook_tag p i helpful of
        Inr p1 \<Rightarrow> apply_operations p1 ops
      | Inl e \<Rightarrow> (let (p2, ids, dropped) = apply_operations p ops in (p2, ids, dropped + 1)))"
| "apply_operations p (REMOVE i # ops) =
     (case playbook_remove p i of
        Inr p1 \<Rightarrow> apply_operations p1 ops
      | Inl e \<Rightarrow> (let (p2, ids, dropped) = apply_operations p ops in (p2, ids, dropped + 1)))"

section \<open>Auxiliary notions for the proofs\<close>

text \<open>A float that is NaN, plus infinity, or finite and at least \<open>b\<close>.\<close>

definition at_least :: "real \<Rightarrow> pyfloat \<Rightarrow> bool" where
  "at_least b v = (case v of Fin x \<Rightarrow> b \<le> x | PInf \<Rightarrow> True | NInf \<Rightarrow> False | NaN \<Rightarrow> True)"

text \<open>The quotient \<open>a / (a + b)\<close> of two counts, or zero when both are zero.\<close>

definition ratio :: "nat \<Rightarrow> nat \<Rightarrow> real" where
  "ratio a b = (if a + b > 0 then real a / real (a + b) else 0)"

text \<open>The entries of a search tree, in order.\<close>

fun entries :: "case_tree \<Rightarrow> (nat \<times> nat list) list" where
  "entries Tip = []"
| "entries (Branch l k u r) = entries l @ (k, u) # entries r"

text \<open>
  An entry of the uppercase table is stable when its image is not empty and no
  character of the image is white space or has an entry of its own.
\<close>

definition entry_stable :: "nat \<times> nat list \<Rightarrow> bool" where
  "entry_stable e =
     (snd e \<noteq> [] \<and>
      list_all (\<lambda>d. tree_lookup upper_tree d = None \<and> \<not> py_isspace d) (snd e))"

text \<open>A string that neither starts nor ends with white space.\<close>

definition trimmed :: "pystr \<Rightarrow> bool" where
  "trimmed t = (t = [] \<or> (\<not> py_isspace (hd t) \<and> \<not> py_isspace (last t)))"

text \<open>The ids of the bullets of a list of sections, in order.\<close>

fun section_ids :: "(pystr \<times> bullet list) list \<Rightarrow> nat list" where
  "section_ids [] = []"
| "section_ids ((s, bs) # rest) = map bullet_id bs @ section_ids rest"

text \<open>Every bullet id of the playbook is below the counter, and no id occurs twice.\<close>

definition ids_fresh :: "playbook \<Rightarrow> bool" where
  "ids_fresh p = (distinct (map bullet_id (bullets p)) \<and> list_all (\<lambda>b. bullet_id b < next_id p) (bullets p))"

section \<open>Literals\<close>

lemma str_eq_iff [simp]: "str a = str b \<longleftrightarrow> a = b"
proof -
  have "inj (of_char :: char \<Rightarrow> nat)" by (rule injI) simp
  then show ?thesis unfolding str_def by (rule inj_map_eq_map)
qed

lemma str_append: "str (a @ b) = str a @ str b"
  by (simp add: str_def)

section \<open>The metrics calculator never raises\<close>

lemma at_least_py_max: "at_least e (py_max p (Fin e))"
  by (cases p) (auto simp: py_max_def at_least_def)

lemma math_log_at_least:
  assumes "at_least e v" "0 < e"
  shows "\<exists>w. math_log v = Inr w \<and> at_least (ln e) w"
  using assms by (cases v) (auto simp: at_least_def)

lemma f_add_at_least: "at_least a v \<Longrightarrow> at_least b w \<Longrightarrow> at_least (a + b) (f_add v w)"
  by (cases v; cases w) (auto simp: at_least_def)

lemma at_least_mono: "at_least a v \<Longrightarrow> b \<le> a \<Longrightarrow> at_least b v"
  by (cases v) (auto simp: at_least_def)

lemma log_likelihood_at_least:
  assumes "at_least a acc"
  shows "\<exists>w. log_likelihood acc xs = Inr w \<and> at_least (a + real (length xs) * ln (1 / 10 ^ 10)) w"
  using assms
proof (induction xs arbitrary: acc a)
  case Nil
  then show ?case by simp
next
  case (Cons t xs)
  obtain prob pred label where t: "t = (prob, pred, label)" by (cases t)
  define ap where "ap = (if pred = label then py_max prob (Fin (1 / 10 ^ 10))
             else py_max (f_sub (Fin 1) prob) (Fin (1 / 10 ^ 10)))"
  have "at_least (1 / 10 ^ 10) ap" unfolding ap_def by (simp add: at_least_py_max)
  then obtain lg where lg: "math_log ap = Inr lg" "at_least (ln (1 / 10 ^ 10)) lg"
    using math_log_at_least[of "1 / 10 ^ 10" ap] by auto
  have "at_least (a + ln (1 / 10 ^ 10)) (f_add acc lg)"
    using Cons.prems lg(2) by (rule f_add_at_least)
  from Cons.IH[OF this] obtain w where
    w: "log_likelihood (f_add acc lg) xs = Inr w"
       "at_least (a + ln (1 / 10 ^ 10) + real (length xs) * ln (1 / 10 ^ 10)) w" by blast
  have "log_likelihood acc (t # xs) = Inr w"
    using lg(1) w(1) by (simp add: t bind_exn_def ap_def[symmetric] Let_def)
  moreover have "at_least (a + real (length (t # xs)) * ln (1 / 10 ^ 10)) w"
    using w(2) by (simp add: algebra_simps)
  ultimately show ?case by blast
qed

lemma small_below_overflow: "x \<le> 10 ^ 10 \<Longrightarrow> x < dbl_overflow"
proof -
  assume x: "x \<le> 10 ^ 10"
  have "(10::real) ^ 10 < 2 ^ 1024 - 2 ^ 970" by simp
  then show ?thesis using x by (simp add: dbl_overflow_def)
qed


lemma exp_avg_ok:
  assumes w: "at_least (real k * ln (1 / 10 ^ 10)) w" and k: "k \<le> n" and n: "0 < n"
  shows "\<exists>r. bind_exn (f_truediv (f_neg w) (Fin (real n))) math_exp = Inr r"
proof (cases w)
  case (Fin x)
  have c0: "ln (1 / 10 ^ 10) \<le> (0::real)" by (simp add: ln_div)
  have "real n * ln (1 / 10 ^ 10) \<le> real k * ln (1 / 10 ^ 10)"
    using k c0 by (simp add: mult_right_mono_neg)
  moreover have "real k * ln (1 / 10 ^ 10) \<le> x" using w Fin by (simp add: at_least_def)
  ultimately have "real n * ln (1 / 10 ^ 10) \<le> x" by (rule order_trans)
  then have "- x / real n \<le> - ln (1 / 10 ^ 10)"
    using n by (simp add: field_simps)
  also have "- ln (1 / 10 ^ 10) = ln ((10::real) ^ 10)" by (simp add: ln_div)
  finally have "exp (- x / real n) \<le> exp (ln ((10::real) ^ 10))"
    by (simp only: exp_le_cancel_iff)
  also have "exp (ln ((10::real) ^ 10)) = 10 ^ 10" by simp
  finally have "exp (- x / real n) \<le> 10 ^ 10" .
  then have "exp (- x / real n) < dbl_overflow" by (rule small_below_overflow)
  then show ?thesis using Fin n by (simp add: bind_exn_def)
next
  case PInf
  then show ?thesis using n by (simp add: bind_exn_def inf_of_sign_def)
next
  case NInf
  then show ?thesis using w by (simp add: at_least_def)
next
  case NaN
  then show ?thesis using n by (simp add: bind_exn_def)
qed

lemma perplexity_with_probabilities:
  assumes "probabilities c \<noteq> [] \<and> length (probabilities c) = length (predictions c)"
  shows "perplexity c acc =
     bind_exn (log_likelihood (Fin 0) (zip (probabilities c) (zip (predictions c) (labels c))))
       (\<lambda>ll. bind_exn (f_truediv (f_neg ll) (Fin (real (length (probabilities c))))) math_exp)"
  unfolding perplexity_def using assms by (rule if_P)

lemma perplexity_without_probabilities:
  assumes "\<not> (probabilities c \<noteq> [] \<and> length (probabilities c) = length (predictions c))"
  shows "perplexity c acc =
     (if f_gt acc (Fin 0) then
        bind_exn (math_log (py_max acc (Fin (1 / 100)))) (\<lambda>lg. math_exp (f_neg lg))
      else Inr PInf)"
  unfolding perplexity_def using assms by (rule if_not_P)

lemma perplexity_returns: "\<exists>r. perplexity c acc = Inr r"
proof (cases "probabilities c \<noteq> [] \<and> length (probabilities c) = length (predictions c)")
  case True
  let ?xs = "zip (probabilities c) (zip (predictions c) (labels c))"
  have "at_least 0 (Fin 0)" by (simp add: at_least_def)
  from log_likelihood_at_least[OF this, of ?xs] obtain w where
    w: "log_likelihood (Fin 0) ?xs = Inr w" "at_least (real (length ?xs) * ln (1 / 10 ^ 10)) w"
    by auto
  have "length ?xs \<le> length (probabilities c)" by simp
  moreover have "0 < length (probabilities c)"
  proof -
    from True have "probabilities c \<noteq> []" by blast
    then show ?thesis by simp
  qed
  ultimately obtain r where
    "bind_exn (f_truediv (f_neg w) (Fin (real (length (probabilities c))))) math_exp = Inr r"
    using exp_avg_ok[OF w(2)] by blast
  then show ?thesis
    unfolding perplexity_with_probabilities[OF True] using w(1) by (simp add: bind_exn_def)
next
  case False
  show ?thesis
  proof (cases "f_gt acc (Fin 0)")
    case gt: True
    show ?thesis
    proof (cases acc)
      case (Fin a)
      with gt have a: "0 < a" by simp
      define m where "m = max a (1 / 100)"
      have m: "1 / 100 \<le> m" "0 < m" by (simp_all add: m_def)
      have pm: "py_max acc (Fin (1 / 100)) = Fin m"
        using Fin by (auto simp: py_max_def m_def max_def)
      have "exp (- ln m) = 1 / m" using m(2) by (simp add: exp_minus exp_ln inverse_eq_divide)
      also have "\<dots> \<le> 100" using m by (simp add: field_simps)
      finally have "exp (- ln m) \<le> 10 ^ 10" by simp
      then have "exp (- ln m) < dbl_overflow" by (rule small_below_overflow)
      then show ?thesis
        unfolding perplexity_without_probabilities[OF False]
        using gt pm m(2) by (simp add: bind_exn_def)
    next
      case PInf
      then show ?thesis
        unfolding perplexity_without_probabilities[OF False]
        using gt by (simp add: bind_exn_def py_max_def)
    next
      case NInf
      then show ?thesis using gt by simp
    next
      case NaN
      then show ?thesis using gt by simp
    qed
  next
    case ngt: False
    then show ?thesis
      unfolding perplexity_without_probabilities[OF False] by simp
  qed
qed

lemma f1_returns:
  assumes "0 \<le> p" "0 \<le> r"
  shows "\<exists>v. (if f_gt (f_add (Fin p) (Fin r)) (Fin 0)
                then f_truediv (f_mul (f_mul (Fin 2) (Fin p)) (Fin r)) (f_add (Fin p) (Fin r))
                else Inr (Fin 0)) = Inr (Fin v)
           \<and> (p + r = 0 \<longrightarrow> v = 0)"
  using assms by auto


lemma ratio_step:
  "(if tp + fp > 0 then int_truediv tp (tp + fp) else Inr (Fin 0)) = Inr (Fin (ratio tp fp))"
  by (simp add: int_truediv_def ratio_def)

lemma ratio_nonneg: "0 \<le> ratio tp fp"
  by (simp add: ratio_def)

lemma compute_nonempty:
  assumes ne: "predictions c \<noteq> []" "labels c \<noteq> []"
  shows "\<exists>f1 ppl.
    compute c = Inr
      [str ''accuracy'' \<mapsto> Fin (real (count_pairs (\<lambda>p l. p = l) (predictions c) (labels c))
                         / real (length (predictions c))),
       str ''precision'' \<mapsto> Fin (ratio
          (count_pairs (\<lambda>p l. p = positive_class (labels c) \<and> l = positive_class (labels c))
             (predictions c) (labels c))
          (count_pairs (\<lambda>p l. p = positive_class (labels c) \<and> l \<noteq> positive_class (labels c))
             (predictions c) (labels c))),
       str ''recall'' \<mapsto> Fin (ratio
          (count_pairs (\<lambda>p l. p = positive_class (labels c) \<and> l = positive_class (labels c))
             (predictions c) (labels c))
          (count_pairs (\<lambda>p l. p \<noteq> positive_class (labels c) \<and> l = positive_class (labels c))
             (predictions c) (labels c))),
       str ''f1'' \<mapsto> Fin f1, str ''perplexity'' \<mapsto> ppl]
    \<and> (ratio
          (count_pairs (\<lambda>p l. p = positive_class (labels c) \<and> l = positive_class (labels c))
             (predictions c) (labels c))
          (count_pairs (\<lambda>p l. p = positive_class (labels c) \<and> l \<noteq> positive_class (labels c))
             (predictions c) (labels c))
        + ratio
          (count_pairs (\<lambda>p l. p = positive_class (labels c) \<and> l = positive_class (labels c))
             (predictions c) (labels c))
          (count_pairs (\<lambda>p l. p \<noteq> positive_class (labels c) \<and> l = positive_class (labels c))
             (predictions c) (labels c)) = 0 \<longrightarrow> f1 = 0)"
proof -
  define acc where "acc = Fin (real (count_pairs (\<lambda>p l. p = l) (predictions c) (labels c))
                         / real (length (predictions c)))"
  define pos where "pos = positive_class (labels c)"
  define tp where "tp = count_pairs (\<lambda>p l. p = pos \<and> l = pos) (predictions c) (labels c)"
  define fp where "fp = count_pairs (\<lambda>p l. p = pos \<and> l \<noteq> pos) (predictions c) (labels c)"
  define fn where "fn = count_pairs (\<lambda>p l. p \<noteq> pos \<and> l = pos) (predictions c) (labels c)"
  have a: "int_truediv (count_pairs (\<lambda>p l. p = l) (predictions c) (labels c))
             (length (predictions c)) = Inr acc"
    using ne(1) by (simp add: int_truediv_def acc_def)
  obtain f1 where f1:
    "(if f_gt (f_add (Fin (ratio tp fp)) (Fin (ratio tp fn))) (Fin 0)
      then f_truediv (f_mul (f_mul (Fin 2) (Fin (ratio tp fp))) (Fin (ratio tp fn)))
             (f_add (Fin (ratio tp fp)) (Fin (ratio tp fn)))
      else Inr (Fin 0)) = Inr (Fin f1)"
    "ratio tp fp + ratio tp fn = 0 \<longrightarrow> f1 = 0"
    using f1_returns[OF ratio_nonneg ratio_nonneg, of tp fp tp fn] by blast
  obtain ppl where ppl: "perplexity c acc = Inr ppl"
    using perplexity_returns by blast
  have "compute c = Inr
      [str ''accuracy'' \<mapsto> acc, str ''precision'' \<mapsto> Fin (ratio tp fp),
       str ''recall'' \<mapsto> Fin (ratio tp fn), str ''f1'' \<mapsto> Fin f1, str ''perplexity'' \<mapsto> ppl]"
    unfolding compute_def Let_def pos_def[symmetric] tp_def[symmetric] fp_def[symmetric]
      fn_def[symmetric] ratio_step a
    using ne f1(1) ppl by (simp add: bind_exn_def)
  then show ?thesis
    using f1(2) unfolding acc_def tp_def fp_def fn_def pos_def by blast
qed

lemma compute_returns: "\<exists>m. compute c = Inr m \<and>
   {str ''accuracy'', str ''precision'', str ''recall'', str ''f1'', str ''perplexity''} \<subseteq> dom m"
proof (cases "predictions c = [] \<or> labels c = []")
  case True
  then show ?thesis by (auto simp: compute_def)
next
  case False
  then obtain f1 ppl acc p r where
    "compute c = Inr [str ''accuracy'' \<mapsto> Fin acc, str ''precision'' \<mapsto> Fin p,
       str ''recall'' \<mapsto> Fin r, str ''f1'' \<mapsto> Fin f1, str ''perplexity'' \<mapsto> ppl]"
    using compute_nonempty[of c] by blast
  then show ?thesis by simp
qed

section \<open>Normalising a label is idempotent\<close>

text \<open>
  \<^verbatim>\<open>s.strip().upper()\<close> applied twice gives what it gives applied once. Two
  facts about the uppercase table carry the proof: the image of a character is not
  empty, and a character of an image is not white space and is not changed itself.
  They are read from the table, entry by entry; the congruence rule keeps the
  simplifier from visiting the table each time a code point is looked up.
\<close>

lemma tree_lookup_cong: "c = c' \<Longrightarrow> tree_lookup t c = tree_lookup t c'"
  by simp

lemma tree_lookup_entries: "tree_lookup t c = Some u \<Longrightarrow> (c, u) \<in> set (entries t)"
  by (induction t) (auto split: if_splits)

lemma upper_tree_stable: "list_all entry_stable (entries upper_tree)"
  unfolding upper_tree_def entry_stable_def py_isspace_def whitespace_def
  by (simp cong: tree_lookup_cong)

lemma upper_char_entry:
  assumes "tree_lookup upper_tree c = Some u"
  shows "u \<noteq> []" and "\<forall>d \<in> set u. tree_lookup upper_tree d = None \<and> \<not> py_isspace d"
proof -
  from assms have "(c, u) \<in> set (entries upper_tree)" by (rule tree_lookup_entries)
  with upper_tree_stable have "entry_stable (c, u)" by (simp add: list_all_iff)
  then show "u \<noteq> []" and "\<forall>d \<in> set u. tree_lookup upper_tree d = None \<and> \<not> py_isspace d"
    by (simp_all add: entry_stable_def list_all_iff)
qed

lemma upper_char_nonempty: "upper_char c \<noteq> []"
  using upper_char_entry(1)[of c] by (auto simp: upper_char_def split: option.splits)

lemma upper_char_fixed:
  assumes "d \<in> set (upper_char c)"
  shows "upper_char d = [d]"
proof (cases "tree_lookup upper_tree c")
  case None
  with assms have "d = c" by (simp add: upper_char_def)
  with None show ?thesis by (simp add: upper_char_def)
next
  case (Some u)
  with assms have "d \<in> set u" by (simp add: upper_char_def)
  with upper_char_entry(2)[OF Some] have "tree_lookup upper_tree d = None" by blast
  then show ?thesis by (simp add: upper_char_def)
qed

lemma upper_char_not_space:
  assumes "\<not> py_isspace c" and "d \<in> set (upper_char c)"
  shows "\<not> py_isspace d"
proof (cases "tree_lookup upper_tree c")
  case None
  with assms show ?thesis by (simp add: upper_char_def)
next
  case (Some u)
  with assms(2) have "d \<in> set u" by (simp add: upper_char_def)
  with upper_char_entry(2)[OF Some] show ?thesis by blast
qed

lemma py_upper_fixed:
  assumes "\<forall>d \<in> set u. upper_char d = [d]"
  shows "py_upper u = u"
  using assms by (induction u) (simp_all add: py_upper_def)

lemma py_upper_append: "py_upper (a @ b) = py_upper a @ py_upper b"
  by (simp add: py_upper_def)

lemma py_upper_idem: "py_upper (py_upper s) = py_upper s"
proof (induction s)
  case Nil
  then show ?case by (simp add: py_upper_def)
next
  case (Cons c s)
  have "py_upper (upper_char c) = upper_char c"
    by (rule py_upper_fixed) (simp add: upper_char_fixed)
  moreover have "py_upper (c # s) = upper_char c @ py_upper s" by (simp add: py_upper_def)
  ultimately show ?case using Cons by (simp add: py_upper_append)
qed

lemma hd_py_upper:
  assumes "t \<noteq> []"
  shows "hd (py_upper t) \<in> set (upper_char (hd t))"
proof -
  from assms obtain c s where t: "t = c # s" by (cases t) auto
  have "hd (py_upper t) = hd (upper_char c)"
    using upper_char_nonempty[of c] by (simp add: t py_upper_def)
  then show ?thesis using upper_char_nonempty[of c] by (simp add: t)
qed

lemma last_py_upper:
  assumes "t \<noteq> []"
  shows "last (py_upper t) \<in> set (upper_char (last t))"
proof -
  from assms obtain s c where t: "t = s @ [c]" by (cases t rule: rev_cases) auto
  have "py_upper t = py_upper s @ upper_char c" by (simp add: t py_upper_def)
  then have "last (py_upper t) = last (upper_char c)"
    using upper_char_nonempty[of c] by simp
  then show ?thesis using upper_char_nonempty[of c] by (simp add: t)
qed

lemma py_upper_Nil_iff: "py_upper t = [] \<longleftrightarrow> t = []"
  using upper_char_nonempty by (cases t) (simp_all add: py_upper_def)

lemma trimmed_py_upper:
  assumes "trimmed t"
  shows "trimmed (py_upper t)"
proof (cases "t = []")
  case True
  then show ?thesis by (simp add: trimmed_def py_upper_def)
next
  case False
  with assms have e: "\<not> py_isspace (hd t)" "\<not> py_isspace (last t)" by (simp_all add: trimmed_def)
  from upper_char_not_space[OF e(1) hd_py_upper[OF False]]
    upper_char_not_space[OF e(2) last_py_upper[OF False]]
  show ?thesis by (simp add: trimmed_def)
qed

lemma dropWhile_id: "s = [] \<or> \<not> P (hd s) \<Longrightarrow> dropWhile P s = s"
  by (cases s) auto

lemma py_strip_trimmed_id:
  assumes "trimmed t"
  shows "py_strip t = t"
proof (cases "t = []")
  case True
  then show ?thesis by (simp add: py_strip_def)
next
  case False
  with assms have e: "\<not> py_isspace (hd t)" "\<not> py_isspace (last t)" by (simp_all add: trimmed_def)
  have "dropWhile py_isspace t = t" using e(1) by (simp add: dropWhile_id)
  moreover have "dropWhile py_isspace (rev t) = rev t"
    using e(2) False by (simp add: dropWhile_id hd_rev)
  ultimately show ?thesis by (simp add: py_strip_def)
qed

lemma trimmed_py_strip: "trimmed (py_strip s)"
proof (cases "py_strip s = []")
  case True
  then show ?thesis by (simp add: trimmed_def)
next
  case False
  let ?a = "dropWhile py_isspace s"
  let ?b = "dropWhile py_isspace (rev ?a)"
  have b: "?b \<noteq> []" using False by (simp add: py_strip_def)
  have a: "?a \<noteq> []"
  proof
    assume "?a = []"
    then have "?b = []" by (simp only: rev.simps dropWhile.simps)
    with b show False by contradiction
  qed
  have l: "\<not> py_isspace (last (py_strip s))"
  proof -
    have "last (py_strip s) = hd ?b" using b by (simp add: py_strip_def last_rev)
    then show ?thesis using b by (metis hd_dropWhile)
  qed
  have h: "\<not> py_isspace (hd (py_strip s))"
  proof -
    obtain ys where ys: "rev ?a = ys @ ?b" by (metis takeWhile_dropWhile_id)
    then have "?a = rev ?b @ rev ys" by (metis rev_append rev_rev_ident)
    then have "hd ?a = hd (rev ?b)" using b by (metis hd_append2 rev_is_Nil_conv)
    moreover have "\<not> py_isspace (hd ?a)" using a by (metis hd_dropWhile)
    ultimately show ?thesis by (simp add: py_strip_def)
  qed
  from h l show ?thesis by (simp add: trimmed_def)
qed

lemma strip_upper_idem: "strip_upper (strip_upper s) = strip_upper s"
proof -
  have "trimmed (py_upper (py_strip s))" by (rule trimmed_py_upper) (rule trimmed_py_strip)
  then have "py_strip (py_upper (py_strip s)) = py_upper (py_strip s)" by (rule py_strip_trimmed_id)
  then show ?thesis by (simp add: strip_upper_def py_upper_idem)
qed

section \<open>The three outcomes of \<^verbatim>\<open>evaluate\<close>\<close>

lemma evaluate_raises:
  assumes "extract_probability to_float (raw g) = Inl e"
  shows "evaluate to_float self s g = (self, Inl e)"
  using assms by (simp add: evaluate_def Let_def)

lemma evaluate_invalid:
  assumes "extract_probability to_float (raw g) = Inr p"
    and "strip_upper (final_answer g) \<notin> {str ''X'', str ''A''}"
  shows "evaluate to_float self s g =
    (self, Inr (Plain_result
       \<lparr>feedback = invalid_feedback (strip_upper (final_answer g)),
        result_ground_truth =
          strip_upper (case ground_truth (as_patent_sample s) of None \<Rightarrow> [] | Some t \<Rightarrow> t),
        metrics = [str ''accuracy'' \<mapsto> Fin 0, str ''error'' \<mapsto> Fin 1]\<rparr>))"
  using assms by (simp add: evaluate_def Let_def)

lemma evaluate_valid:
  assumes "extract_probability to_float (raw g) = Inr p"
    and "strip_upper (final_answer g) \<in> {str ''X'', str ''A''}"
  shows "\<exists>m gt. compute (add (metrics_calculator self) (strip_upper (final_answer g)) gt p) = Inr m
    \<and> gt = strip_upper (case ground_truth (as_patent_sample s) of None \<Rightarrow> [] | Some t \<Rightarrow> t)
    \<and> evaluate to_float self s g =
    (self\<lparr>metrics_calculator := add (metrics_calculator self) (strip_upper (final_answer g)) gt p,
          step_metrics := step_metrics self @ [m]\<rparr>,
     Inr (Patent_result
       \<lparr>feedback = build_feedback (strip_upper (final_answer g) = gt) (strip_upper (final_answer g)),
        result_ground_truth = gt, metrics = m,
        prediction = strip_upper (final_answer g), probability = p\<rparr>))"
proof -
  define gt where "gt = strip_upper (case ground_truth (as_patent_sample s) of None \<Rightarrow> [] | Some t \<Rightarrow> t)"
  obtain m where m: "compute (add (metrics_calculator self) (strip_upper (final_answer g)) gt p) = Inr m"
    using compute_returns by blast
  have "evaluate to_float self s g =
    (self\<lparr>metrics_calculator := add (metrics_calculator self) (strip_upper (final_answer g)) gt p,
          step_metrics := step_metrics self @ [m]\<rparr>,
     Inr (Patent_result
       \<lparr>feedback = build_feedback (strip_upper (final_answer g) = gt) (strip_upper (final_answer g)),
        result_ground_truth = gt, metrics = m,
        prediction = strip_upper (final_answer g), probability = p\<rparr>))"
    using assms m unfolding evaluate_def Let_def gt_def[symmetric] by auto
  with m gt_def show ?thesis by blast
qed

lemma prefix_invalid_feedback: "prefix (str ''Invalid classification'') (invalid_feedback t)"
  by (simp add: invalid_feedback_def str_def)

lemma evaluate_cases:
  assumes valid: "strip_upper (final_answer g) \<in> {str ''X'', str ''A''}"
  shows "(\<exists>e. extract_probability to_float (raw g) = Inl e \<and> snd (evaluate to_float self s g) = Inl e)
    \<or> (\<exists>p pr. extract_probability to_float (raw g) = Inr p
          \<and> snd (evaluate to_float self s g) = Inr (Patent_result pr)
          \<and> probability pr = p
          \<and> {str ''accuracy'', str ''precision'', str ''recall'', str ''f1'', str ''perplexity''} \<subseteq> dom (metrics pr))"
proof (cases "extract_probability to_float (raw g)")
  case (Inl e)
  then show ?thesis by (simp add: evaluate_raises)
next
  case (Inr p)
  from evaluate_valid[OF Inr valid, of self s] obtain m gt where
    m: "compute (add (metrics_calculator self) (strip_upper (final_answer g)) gt p) = Inr m"
    and ev: "snd (evaluate to_float self s g) = Inr (Patent_result
       \<lparr>feedback = build_feedback (strip_upper (final_answer g) = gt) (strip_upper (final_answer g)),
        result_ground_truth = gt, metrics = m,
        prediction = strip_upper (final_answer g), probability = p\<rparr>)"
    by auto
  from compute_returns[of "add (metrics_calculator self) (strip_upper (final_answer g)) gt p"] m
  have "{str ''accuracy'', str ''precision'', str ''recall'', str ''f1'', str ''perplexity''} \<subseteq> dom m" by simp
  with Inr ev show ?thesis by simp
qed

lemma extract_probability_Inr:
  assumes "extract_probability to_float r = Inr p"
  shows "(\<forall>v. r (str ''confidence'') = Some v \<longrightarrow> (\<exists>f. to_float v = Inr f \<and> p = Some f))
    \<and> (r (str ''confidence'') = None \<longrightarrow>
         (\<forall>v. r (str ''probability'') = Some v \<longrightarrow> (\<exists>f. to_float v = Inr f \<and> p = Some f)))
    \<and> (r (str ''confidence'') = None \<and> r (str ''probability'') = None \<longrightarrow> p = None)"
  using assms
  by (auto simp: extract_probability_def bind_exn_def split: option.splits sum.splits)

text \<open>Unfolding a call of \<^verbatim>\<open>evaluate\<close> on a concrete input.\<close>

lemmas eval_simps = evaluate_def extract_probability_def bind_exn_def as_patent_sample_def PatentSample_def post_init_def
      add_def compute_def count_pairs_def positive_class_def perplexity_def int_truediv_def
      PatentMatchEnvironment_init_def MetricsCalculator_init_def build_feedback_def Let_def

text \<open>The normalised form of the answers and labels used in the examples.\<close>

lemma strip_upper_examples:
  "strip_upper (str ''B'') = str ''B''"
  "strip_upper (str ''maybe'') = str ''MAYBE''"
  "strip_upper (str '' no '') = str ''NO''"
  "strip_upper (str '' x '') = str ''X''"
  "strip_upper (str '' a'') = str ''A''"
  "strip_upper (str ''X'') = str ''X''"
  "strip_upper (str ''A'') = str ''A''"
  "strip_upper (160 # str ''x'' @ [8195]) = str ''X''"
  unfolding strip_upper_def py_strip_def py_upper_def upper_char_def upper_tree_def
    py_isspace_def whitespace_def str_def
  by (simp_all cong: tree_lookup_cong)

section \<open>The claims about \<^verbatim>\<open>PatentMatchEnvironment\<close> and \<^verbatim>\<open>PatentSample\<close>\<close>

text \<open>
  C1, as stated: for every sample and every generator output whose normalised final
  answer is neither X nor A, \<^verbatim>\<open>evaluate\<close> returns normally. It does not:
  the probability is converted with \<^verbatim>\<open>float\<close> before the label is validated,
  so with \<^verbatim>\<open>raw = {"confidence": None}\<close> and the answer B the call raises
  \<^verbatim>\<open>TypeError\<close>.
\<close>

theorem C1_counterexample:
  "strip_upper (str ''B'') \<notin> {str ''X'', str ''A''} \<and>
   evaluate py_float PatentMatchEnvironment_init
     (Patent (PatentSample (str ''c'') (str ''p'') [] (Some (str ''A'')) [] Map.empty))
     \<lparr>reasoning = [], final_answer = str ''B'', bullet_ids = [],
      raw = [str ''confidence'' \<mapsto> PyNone]\<rparr>
   = (PatentMatchEnvironment_init, Inl TypeError)"
  by (simp add: evaluate_def extract_probability_def bind_exn_def strip_upper_examples)

text \<open>
  C1, amended: for every sample and every generator output whose normalised final
  answer is neither X nor A, and whose probability extraction (lines 88 to 93) does
  not raise, \<^verbatim>\<open>evaluate\<close> returns normally with a plain
  \<^verbatim>\<open>EnvironmentResult\<close> whose feedback begins with "Invalid classification"
  and whose metrics map accuracy to 0.0.
\<close>

theorem C1_invalid_label_is_a_result:
  assumes "strip_upper (final_answer g) \<notin> {str ''X'', str ''A''}"
    and "extract_probability to_float (raw g) = Inr p"
  shows "\<exists>r. evaluate to_float self s g = (self, Inr (Plain_result r))
    \<and> prefix (str ''Invalid classification'') (feedback r)
    \<and> metrics r (str ''accuracy'') = Some (Fin 0)"
  using evaluate_invalid[OF assms(2,1), of self s] prefix_invalid_feedback by simp

theorem C1_witness:
  "strip_upper (str ''maybe'') \<notin> {str ''X'', str ''A''} \<and>
   extract_probability py_float [str ''confidence'' \<mapsto> PyFloat (Fin (9 / 10))]
     = Inr (Some (Fin (9 / 10))) \<and>
   (\<exists>r. evaluate py_float PatentMatchEnvironment_init
     (Patent (PatentSample (str ''c'') (str ''p'') [] (Some (str ''A'')) [] Map.empty))
     \<lparr>reasoning = [], final_answer = str ''maybe'', bullet_ids = [],
      raw = [str ''confidence'' \<mapsto> PyFloat (Fin (9 / 10))]\<rparr>
      = (PatentMatchEnvironment_init, Inr (Plain_result r))
    \<and> prefix (str ''Invalid classification'') (feedback r)
    \<and> metrics r (str ''accuracy'') = Some (Fin 0))"
proof -
  have h1: "strip_upper (final_answer \<lparr>reasoning = [], final_answer = str ''maybe'', bullet_ids = [],
      raw = [str ''confidence'' \<mapsto> PyFloat (Fin (9 / 10))]\<rparr>) \<notin> {str ''X'', str ''A''}"
    by (simp add: strip_upper_examples)
  have h2: "extract_probability py_float
      (raw \<lparr>reasoning = [], final_answer = str ''maybe'', bullet_ids = [],
            raw = [str ''confidence'' \<mapsto> PyFloat (Fin (9 / 10))]\<rparr>) = Inr (Some (Fin (9 / 10)))"
    by (simp add: extract_probability_def bind_exn_def)
  show ?thesis
    using h1 h2 C1_invalid_label_is_a_result[OF h1 h2, of PatentMatchEnvironment_init
        "Patent (PatentSample (str ''c'') (str ''p'') [] (Some (str ''A'')) [] Map.empty)"]
    by simp
qed

text \<open>
  C2: \<^verbatim>\<open>evaluate\<close> normalises the prediction itself. For every sample,
  environment and generator output, the call gives the same outcome (result and
  environment) as the call on the output whose final answer is already stripped and
  upper-cased; and the prediction field of a returned
  \<^verbatim>\<open>PatentEnvironmentResult\<close> is the stripped, upper-cased final answer.
  The example has the answer x between a no-break space and an em space.
\<close>

theorem C2_evaluate_normalises_prediction:
  "evaluate to_float self s (g\<lparr>final_answer := strip_upper (final_answer g)\<rparr>)
     = evaluate to_float self s g
   \<and> (\<forall>self' r. evaluate to_float self s g = (self', Inr (Patent_result r))
        \<longrightarrow> prediction r = strip_upper (final_answer g))"
proof
  show "evaluate to_float self s (g\<lparr>final_answer := strip_upper (final_answer g)\<rparr>)
          = evaluate to_float self s g"
    by (simp add: evaluate_def strip_upper_idem)
next
  show "\<forall>self' r. evaluate to_float self s g = (self', Inr (Patent_result r))
        \<longrightarrow> prediction r = strip_upper (final_answer g)"
  proof (intro allI impI)
    fix self' r
    assume ev: "evaluate to_float self s g = (self', Inr (Patent_result r))"
    show "prediction r = strip_upper (final_answer g)"
    proof (cases "extract_probability to_float (raw g)")
      case (Inl e)
      then show ?thesis using ev by (simp add: evaluate_raises)
    next
      case (Inr p)
      show ?thesis
      proof (cases "strip_upper (final_answer g) \<in> {str ''X'', str ''A''}")
        case True
        from evaluate_valid[OF Inr True, of self s] ev show ?thesis by auto
      next
        case False
        from evaluate_invalid[OF Inr False, of self s] ev show ?thesis by simp
      qed
    qed
  qed
qed

theorem C2_witness:
  "evaluate py_float PatentMatchEnvironment_init
     (Patent (PatentSample (str ''c'') (str ''p'') [] (Some (str ''A'')) [] Map.empty))
     \<lparr>reasoning = [], final_answer = 160 # str ''x'' @ [8195], bullet_ids = [], raw = Map.empty\<rparr>
   = (\<lparr>metrics_calculator = \<lparr>predictions = [str ''X''], labels = [str ''A''], probabilities = []\<rparr>,
       step_metrics = [[str ''accuracy'' \<mapsto> Fin 0, str ''precision'' \<mapsto> Fin 0, str ''recall'' \<mapsto> Fin 0,
             str ''f1'' \<mapsto> Fin 0, str ''perplexity'' \<mapsto> PInf]]\<rparr>,
      Inr (Patent_result
        \<lparr>feedback = str ''Incorrect: Classified as X (match) but should be A (no match). ''
              @ str ''The paragraph does not contain all key features of the claim.'',
         result_ground_truth = str ''A'',
         metrics = [str ''accuracy'' \<mapsto> Fin 0, str ''precision'' \<mapsto> Fin 0, str ''recall'' \<mapsto> Fin 0,
             str ''f1'' \<mapsto> Fin 0, str ''perplexity'' \<mapsto> PInf],
         prediction = str ''X'', probability = None\<rparr>))
   \<and> prediction \<lparr>feedback = str ''Incorrect: Classified as X (match) but should be A (no match). ''
              @ str ''The paragraph does not contain all key features of the claim.'',
         result_ground_truth = str ''A'',
         metrics = [str ''accuracy'' \<mapsto> Fin 0, str ''precision'' \<mapsto> Fin 0, str ''recall'' \<mapsto> Fin 0,
             str ''f1'' \<mapsto> Fin 0, str ''perplexity'' \<mapsto> PInf],
         prediction = str ''X'', probability = None\<rparr>
       = strip_upper (160 # str ''x'' @ [8195])"
proof -
  let ?g = "\<lparr>reasoning = [], final_answer = 160 # str ''x'' @ [8195], bullet_ids = [],
             raw = (Map.empty :: pystr \<rightharpoonup> pyval)\<rparr>"
  let ?s = "Patent (PatentSample (str ''c'') (str ''p'') [] (Some (str ''A'')) [] Map.empty)"
  let ?r = "\<lparr>feedback = str ''Incorrect: Classified as X (match) but should be A (no match). ''
              @ str ''The paragraph does not contain all key features of the claim.'',
         result_ground_truth = str ''A'',
         metrics = [str ''accuracy'' \<mapsto> Fin 0, str ''precision'' \<mapsto> Fin 0, str ''recall'' \<mapsto> Fin 0,
             str ''f1'' \<mapsto> Fin 0, str ''perplexity'' \<mapsto> PInf],
         prediction = str ''X'', probability = None\<rparr>"
  let ?e = "\<lparr>metrics_calculator = \<lparr>predictions = [str ''X''], labels = [str ''A''], probabilities = []\<rparr>,
       step_metrics = [[str ''accuracy'' \<mapsto> Fin 0, str ''precision'' \<mapsto> Fin 0, str ''recall'' \<mapsto> Fin 0,
             str ''f1'' \<mapsto> Fin 0, str ''perplexity'' \<mapsto> PInf]]\<rparr>"
  note n = strip_upper_examples
  have ev: "evaluate py_float PatentMatchEnvironment_init ?s ?g = (?e, Inr (Patent_result ?r))"
    by (simp add: eval_simps n)
  from C2_evaluate_normalises_prediction[of py_float PatentMatchEnvironment_init ?s ?g]
  have "\<forall>self' r. evaluate py_float PatentMatchEnvironment_init ?s ?g = (self', Inr (Patent_result r))
        \<longrightarrow> prediction r = strip_upper (final_answer ?g)"
    by (rule conjunct2)
  with ev have "prediction ?r = strip_upper (final_answer ?g)" by blast
  then have "prediction ?r = strip_upper (160 # str ''x'' @ [8195])" by (simp only: generator_output.simps)
  with ev show ?thesis by (rule conjI)
qed

text \<open>
  C8: a call with an invalid prediction leaves the environment as it was: the
  calculator's three lists and the step metrics are unchanged (also when the call
  raises), so the metrics computed afterwards are those computed before.
\<close>

theorem C8_invalid_prediction_keeps_state:
  assumes "strip_upper (final_answer g) \<notin> {str ''X'', str ''A''}"
  shows "fst (evaluate to_float self s g) = self
    \<and> predictions (metrics_calculator (fst (evaluate to_float self s g)))
        = predictions (metrics_calculator self)
    \<and> labels (metrics_calculator (fst (evaluate to_float self s g)))
        = labels (metrics_calculator self)
    \<and> probabilities (metrics_calculator (fst (evaluate to_float self s g)))
        = probabilities (metrics_calculator self)
    \<and> step_metrics (fst (evaluate to_float self s g)) = step_metrics self
    \<and> compute (metrics_calculator (fst (evaluate to_float self s g)))
        = compute (metrics_calculator self)"
proof -
  have "fst (evaluate to_float self s g) = self"
  proof (cases "extract_probability to_float (raw g)")
    case (Inl e)
    then show ?thesis by (simp add: evaluate_raises)
  next
    case (Inr p)
    then show ?thesis using assms by (simp add: evaluate_invalid)
  qed
  then show ?thesis by simp
qed

theorem C8_witness:
  "strip_upper (str '' no '') \<notin> {str ''X'', str ''A''} \<and>
   fst (evaluate py_float PatentMatchEnvironment_init
     (Base \<lparr>question = str ''q'', sample_context = [], ground_truth = None, metadata = Map.empty\<rparr>)
     \<lparr>reasoning = [], final_answer = str '' no '', bullet_ids = [], raw = Map.empty\<rparr>)
   = PatentMatchEnvironment_init"
proof -
  have h: "strip_upper (final_answer \<lparr>reasoning = [], final_answer = str '' no '', bullet_ids = [],
      raw = (Map.empty :: pystr \<rightharpoonup> pyval)\<rparr>) \<notin> {str ''X'', str ''A''}"
    by (simp add: strip_upper_examples)
  show ?thesis
    using h C8_invalid_prediction_keeps_state[OF h, of py_float PatentMatchEnvironment_init]
    by simp
qed

text \<open>
  C10: constructing a \<^verbatim>\<open>PatentSample\<close> with an empty question sets the
  question to "Claim: " + claim + two newlines + "Paragraph: " + paragraph; a
  non-empty question is kept.
\<close>

theorem C10_post_init_question:
  "question (PatentSample cl par [] gt ctx md)
     = str ''Claim: '' @ cl @ [10, 10] @ str ''Paragraph: '' @ par
   \<and> (q \<noteq> [] \<longrightarrow> question (PatentSample cl par q gt ctx md) = q)"
  by (simp add: PatentSample_def post_init_def)

theorem C10_witness:
  "str ''Does it match?'' \<noteq> [] \<and>
   question (PatentSample (str ''c'') (str ''p'') (str ''Does it match?'') (Some (str ''X'')) [] Map.empty)
     = str ''Does it match?'' \<and>
   question (PatentSample (str ''c'') (str ''p'') [] (Some (str ''X'')) [] Map.empty)
     = str ''Claim: c'' @ [10, 10] @ str ''Paragraph: p''"
  using C10_post_init_question[of "str ''c''" "str ''p''" "Some (str ''X'')" "[]" Map.empty
      "str ''Does it match?''"]
  by (simp add: str_def)

text \<open>
  C5: whatever the environment went through, \<^verbatim>\<open>reset_metrics\<close> gives the
  state of a freshly constructed environment: the calculator's predictions, labels and
  probabilities and the step metrics are empty, and a following \<^verbatim>\<open>evaluate\<close>
  behaves as on a fresh environment.
\<close>

theorem C5_reset_metrics_is_fresh:
  "reset_metrics self = PatentMatchEnvironment_init
   \<and> predictions (metrics_calculator (reset_metrics self)) = []
   \<and> labels (metrics_calculator (reset_metrics self)) = []
   \<and> probabilities (metrics_calculator (reset_metrics self)) = []
   \<and> step_metrics (reset_metrics self) = []
   \<and> evaluate to_float (reset_metrics self) s g
       = evaluate to_float PatentMatchEnvironment_init s g"
proof -
  have "reset c = MetricsCalculator_init" for c
    by (cases c) (simp add: reset_def MetricsCalculator_init_def)
  then have "reset_metrics self = PatentMatchEnvironment_init"
    by (cases self) (simp add: reset_metrics_def PatentMatchEnvironment_init_def)
  then show ?thesis
    by (simp add: PatentMatchEnvironment_init_def MetricsCalculator_init_def)
qed

text \<open>
  C3: whenever the normalised final answer is X or A, the metrics of the returned
  result contain the keys accuracy, precision, recall, f1 and perplexity, each mapped
  to a float; and the call does return unless \<^verbatim>\<open>float\<close> raised while the
  probability was extracted.
\<close>

theorem C3_metrics_keys:
  assumes valid: "strip_upper (final_answer g) \<in> {str ''X'', str ''A''}"
  shows "(\<forall>r. snd (evaluate to_float self s g) = Inr r \<longrightarrow>
            {str ''accuracy'', str ''precision'', str ''recall'', str ''f1'', str ''perplexity''}
              \<subseteq> dom (result_metrics r))
    \<and> (\<forall>p. extract_probability to_float (raw g) = Inr p \<longrightarrow>
            (\<exists>r. snd (evaluate to_float self s g) = Inr r))"
  using evaluate_cases[OF valid, of to_float self s] by auto

theorem C3_witness:
  "strip_upper (str ''X'') \<in> {str ''X'', str ''A''}
   \<and> extract_probability py_float [str ''confidence'' \<mapsto> PyFloat (Fin (9 / 10))]
       = Inr (Some (Fin (9 / 10)))
   \<and> (\<exists>r. snd (evaluate py_float PatentMatchEnvironment_init
        (Patent (PatentSample (str ''c'') (str ''p'') [] (Some (str ''X'')) [] Map.empty))
        \<lparr>reasoning = [], final_answer = str ''X'', bullet_ids = [],
         raw = [str ''confidence'' \<mapsto> PyFloat (Fin (9 / 10))]\<rparr>) = Inr r
      \<and> {str ''accuracy'', str ''precision'', str ''recall'', str ''f1'', str ''perplexity''}
           \<subseteq> dom (result_metrics r))"
proof -
  let ?g = "\<lparr>reasoning = [], final_answer = str ''X'', bullet_ids = [],
         raw = [str ''confidence'' \<mapsto> PyFloat (Fin (9 / 10))]\<rparr>"
  note n = strip_upper_examples
  have h: "strip_upper (final_answer ?g) \<in> {str ''X'', str ''A''}" by (simp add: n)
  have e: "extract_probability py_float (raw ?g) = Inr (Some (Fin (9 / 10)))"
    by (simp add: extract_probability_def bind_exn_def)
  let ?s = "Patent (PatentSample (str ''c'') (str ''p'') [] (Some (str ''X'')) [] Map.empty)"
  note t = C3_metrics_keys[OF h, of py_float PatentMatchEnvironment_init ?s]
  from conjunct2[OF t, THEN spec, THEN mp, OF e]
  obtain r where r: "snd (evaluate py_float PatentMatchEnvironment_init ?s ?g) = Inr r" ..
  from conjunct1[OF t, THEN spec, THEN mp, OF r]
  have k: "{str ''accuracy'', str ''precision'', str ''recall'', str ''f1'', str ''perplexity''}
           \<subseteq> dom (result_metrics r)" .
  from r k have "\<exists>r. snd (evaluate py_float PatentMatchEnvironment_init ?s ?g) = Inr r
      \<and> {str ''accuracy'', str ''precision'', str ''recall'', str ''f1'', str ''perplexity''}
           \<subseteq> dom (result_metrics r)"
    by (intro exI conjI)
  with h e show ?thesis by simp
qed

text \<open>
  C4: whenever the normalised final answer is X or A, the probability of the returned
  \<^verbatim>\<open>PatentEnvironmentResult\<close> is \<^verbatim>\<open>float(raw["confidence"])\<close> when
  \<^verbatim>\<open>raw\<close> has the key confidence, otherwise
  \<^verbatim>\<open>float(raw["probability"])\<close> when it has the key probability, otherwise
  \<^verbatim>\<open>None\<close>; confidence wins when both are present. The call returns
  unless that conversion raised.
\<close>

theorem C4_probability_source:
  assumes valid: "strip_upper (final_answer g) \<in> {str ''X'', str ''A''}"
  shows "(\<forall>r. snd (evaluate to_float self s g) = Inr r \<longrightarrow>
            (\<exists>pr. r = Patent_result pr
              \<and> (\<forall>v. raw g (str ''confidence'') = Some v \<longrightarrow>
                    (\<exists>f. to_float v = Inr f \<and> probability pr = Some f))
              \<and> (raw g (str ''confidence'') = None \<longrightarrow>
                    (\<forall>v. raw g (str ''probability'') = Some v \<longrightarrow>
                       (\<exists>f. to_float v = Inr f \<and> probability pr = Some f)))
              \<and> (raw g (str ''confidence'') = None \<and> raw g (str ''probability'') = None \<longrightarrow>
                    probability pr = None)))
    \<and> (\<forall>p. extract_probability to_float (raw g) = Inr p \<longrightarrow>
            (\<exists>r. snd (evaluate to_float self s g) = Inr r))"
proof (intro conjI allI impI)
  fix r
  assume r: "snd (evaluate to_float self s g) = Inr r"
  with evaluate_cases[OF valid, of to_float self s] obtain p pr where
    p: "extract_probability to_float (raw g) = Inr p" and
    pr: "r = Patent_result pr" "probability pr = p"
    by auto
  from p pr(2) have p': "extract_probability to_float (raw g) = Inr (probability pr)" by simp
  note ep = extract_probability_Inr[OF p']
  show "\<exists>pr. r = Patent_result pr
              \<and> (\<forall>v. raw g (str ''confidence'') = Some v \<longrightarrow>
                    (\<exists>f. to_float v = Inr f \<and> probability pr = Some f))
              \<and> (raw g (str ''confidence'') = None \<longrightarrow>
                    (\<forall>v. raw g (str ''probability'') = Some v \<longrightarrow>
                       (\<exists>f. to_float v = Inr f \<and> probability pr = Some f)))
              \<and> (raw g (str ''confidence'') = None \<and> raw g (str ''probability'') = None \<longrightarrow>
                    probability pr = None)"
    by (rule exI[of _ pr]) (rule conjI[OF pr(1) ep])
next
  fix p
  assume "extract_probability to_float (raw g) = Inr p"
  with evaluate_cases[OF valid, of to_float self s]
  show "\<exists>r. snd (evaluate to_float self s g) = Inr r" by auto
qed

theorem C4_witness:
  "strip_upper (str '' a'') \<in> {str ''X'', str ''A''}
   \<and> (\<exists>pr. snd (evaluate py_float PatentMatchEnvironment_init
        (Patent (PatentSample (str ''c'') (str ''p'') [] (Some (str ''X'')) [] Map.empty))
        \<lparr>reasoning = [], final_answer = str '' a'', bullet_ids = [],
         raw = [str ''probability'' \<mapsto> PyFloat (Fin (1 / 2)),
                str ''confidence'' \<mapsto> PyInt 1]\<rparr>) = Inr (Patent_result pr)
      \<and> probability pr = Some (Fin 1))"
proof -
  let ?g = "\<lparr>reasoning = [], final_answer = str '' a'', bullet_ids = [],
         raw = [str ''probability'' \<mapsto> PyFloat (Fin (1 / 2)), str ''confidence'' \<mapsto> PyInt 1]\<rparr>"
  let ?s = "Patent (PatentSample (str ''c'') (str ''p'') [] (Some (str ''X'')) [] Map.empty)"
  note n = strip_upper_examples
  have h: "strip_upper (final_answer ?g) \<in> {str ''X'', str ''A''}" by (simp add: n)
  have f: "py_float (PyInt 1) = Inr (Fin 1)" by (simp add: round_to_double_def)
  have e: "extract_probability py_float (raw ?g) = Inr (Some (Fin 1))"
    by (simp add: extract_probability_def bind_exn_def round_to_double_def)
  have c: "raw ?g (str ''confidence'') = Some (PyInt 1)" by simp
  note t = C4_probability_source[OF h, of py_float PatentMatchEnvironment_init ?s]
  from t e obtain r where r: "snd (evaluate py_float PatentMatchEnvironment_init ?s ?g) = Inr r"
    by blast
  with t obtain pr where pr: "r = Patent_result pr"
    "\<forall>v. raw ?g (str ''confidence'') = Some v \<longrightarrow> (\<exists>f. py_float v = Inr f \<and> probability pr = Some f)"
    by blast
  from pr(2) c f have "probability pr = Some (Fin 1)" by auto
  with r pr(1) have "\<exists>pr. snd (evaluate py_float PatentMatchEnvironment_init ?s ?g) = Inr (Patent_result pr)
      \<and> probability pr = Some (Fin 1)" by blast
  with h show ?thesis by simp
qed

text \<open>
  C9: \<^verbatim>\<open>compute\<close> never divides by zero (it never raises at all). For a
  calculator with at least one prediction and label, precision is TP / (TP + FP) when
  TP + FP is positive and 0.0 otherwise, recall is TP / (TP + FN) when TP + FN is
  positive and 0.0 otherwise, and f1 is 0.0 when precision + recall is 0; the counts
  are taken for the positive class, which is X whenever X occurs among the labels.
\<close>

lemma positive_class_X:
  assumes "str ''X'' \<in> set ls"
  shows "positive_class ls = str ''X''"
proof -
  define u where "u = sort (remdups ls)"
  have x: "str ''X'' \<in> set u" using assms by (simp add: u_def)
  have pc: "positive_class ls =
     (if length u \<ge> 2 then
        (if str ''X'' \<in> set u then str ''X'' else if length u = 2 then u ! 1 else u ! 0)
      else if length u = 1 then u ! 0 else str ''X'')"
    by (simp only: positive_class_def Let_def u_def)
  show ?thesis
  proof (cases "length u \<ge> 2")
    case True
    then show ?thesis using x by (simp only: pc if_True)
  next
    case False
    from x have "length u \<noteq> 0" by auto
    with False have l1: "length u = 1" by arith
    then obtain y where y: "u = [y]" by (auto simp: length_Suc_conv)
    with x have "y = str ''X''" by simp
    with y show ?thesis unfolding pc by simp
  qed
qed

theorem C9_division_guards:
  "(\<exists>m. compute c = Inr m)
   \<and> (predictions c \<noteq> [] \<and> labels c \<noteq> [] \<longrightarrow>
       (let pos = positive_class (labels c);
            tp = count_pairs (\<lambda>p l. p = pos \<and> l = pos) (predictions c) (labels c);
            fp = count_pairs (\<lambda>p l. p = pos \<and> l \<noteq> pos) (predictions c) (labels c);
            fn = count_pairs (\<lambda>p l. p \<noteq> pos \<and> l = pos) (predictions c) (labels c);
            precision = (if tp + fp > 0 then real tp / real (tp + fp) else 0);
            recall = (if tp + fn > 0 then real tp / real (tp + fn) else 0)
        in \<exists>m f1. compute c = Inr m
             \<and> m (str ''precision'') = Some (Fin precision)
             \<and> m (str ''recall'') = Some (Fin recall)
             \<and> m (str ''f1'') = Some (Fin f1)
             \<and> (precision + recall = 0 \<longrightarrow> f1 = 0)))
   \<and> (str ''X'' \<in> set (labels c) \<longrightarrow> positive_class (labels c) = str ''X'')"
proof (intro conjI impI)
  show "\<exists>m. compute c = Inr m" using compute_returns[of c] by blast
next
  assume "predictions c \<noteq> [] \<and> labels c \<noteq> []"
  then have ne: "predictions c \<noteq> []" "labels c \<noteq> []" by simp_all
  from compute_nonempty[OF ne] obtain f1 ppl where
    "compute c = Inr
      [str ''accuracy'' \<mapsto> Fin (real (count_pairs (\<lambda>p l. p = l) (predictions c) (labels c))
                         / real (length (predictions c))),
       str ''precision'' \<mapsto> Fin (ratio
          (count_pairs (\<lambda>p l. p = positive_class (labels c) \<and> l = positive_class (labels c))
             (predictions c) (labels c))
          (count_pairs (\<lambda>p l. p = positive_class (labels c) \<and> l \<noteq> positive_class (labels c))
             (predictions c) (labels c))),
       str ''recall'' \<mapsto> Fin (ratio
          (count_pairs (\<lambda>p l. p = positive_class (labels c) \<and> l = positive_class (labels c))
             (predictions c) (labels c))
          (count_pairs (\<lambda>p l. p \<noteq> positive_class (labels c) \<and> l = positive_class (labels c))
             (predictions c) (labels c))),
       str ''f1'' \<mapsto> Fin f1, str ''perplexity'' \<mapsto> ppl]" and
    "ratio
          (count_pairs (\<lambda>p l. p = positive_class (labels c) \<and> l = positive_class (labels c))
             (predictions c) (labels c))
          (count_pairs (\<lambda>p l. p = positive_class (labels c) \<and> l \<noteq> positive_class (labels c))
             (predictions c) (labels c))
        + ratio
          (count_pairs (\<lambda>p l. p = positive_class (labels c) \<and> l = positive_class (labels c))
             (predictions c) (labels c))
          (count_pairs (\<lambda>p l. p \<noteq> positive_class (labels c) \<and> l = positive_class (labels c))
             (predictions c) (labels c)) = 0 \<longrightarrow> f1 = 0"
    by blast
  then show "let pos = positive_class (labels c);
            tp = count_pairs (\<lambda>p l. p = pos \<and> l = pos) (predictions c) (labels c);
            fp = count_pairs (\<lambda>p l. p = pos \<and> l \<noteq> pos) (predictions c) (labels c);
            fn = count_pairs (\<lambda>p l. p \<noteq> pos \<and> l = pos) (predictions c) (labels c);
            precision = (if tp + fp > 0 then real tp / real (tp + fp) else 0);
            recall = (if tp + fn > 0 then real tp / real (tp + fn) else 0)
        in \<exists>m f1. compute c = Inr m
             \<and> m (str ''precision'') = Some (Fin precision)
             \<and> m (str ''recall'') = Some (Fin recall)
             \<and> m (str ''f1'') = Some (Fin f1)
             \<and> (precision + recall = 0 \<longrightarrow> f1 = 0)"
    unfolding Let_def ratio_def by simp
next
  assume "str ''X'' \<in> set (labels c)"
  then show "positive_class (labels c) = str ''X''" by (rule positive_class_X)
qed

theorem C9_witness:
  "predictions \<lparr>predictions = [str ''X'', str ''X'', str ''X'', str ''A'', str ''A''],
                 labels = [str ''X'', str ''X'', str ''A'', str ''X'', str ''A''], probabilities = []\<rparr> \<noteq> []
   \<and> str ''X'' \<in> set (labels \<lparr>predictions = [str ''X'', str ''X'', str ''X'', str ''A'', str ''A''],
                 labels = [str ''X'', str ''X'', str ''A'', str ''X'', str ''A''], probabilities = []\<rparr>)
   \<and> (\<exists>m f1. compute \<lparr>predictions = [str ''X'', str ''X'', str ''X'', str ''A'', str ''A''],
                 labels = [str ''X'', str ''X'', str ''A'', str ''X'', str ''A''], probabilities = []\<rparr> = Inr m
         \<and> m (str ''precision'') = Some (Fin (2 / 3))
         \<and> m (str ''recall'') = Some (Fin (2 / 3))
         \<and> m (str ''f1'') = Some (Fin f1))
   \<and> (\<exists>m. compute \<lparr>predictions = [str ''A''], labels = [str ''X''], probabilities = []\<rparr> = Inr m
         \<and> m (str ''precision'') = Some (Fin 0)
         \<and> m (str ''recall'') = Some (Fin 0)
         \<and> m (str ''f1'') = Some (Fin 0))"
proof -
  let ?c = "\<lparr>predictions = [str ''X'', str ''X'', str ''X'', str ''A'', str ''A''],
             labels = [str ''X'', str ''X'', str ''A'', str ''X'', str ''A''], probabilities = []\<rparr>"
  let ?d = "\<lparr>predictions = [str ''A''], labels = [str ''X''], probabilities = []\<rparr>"
  have ne: "predictions ?c \<noteq> [] \<and> labels ?c \<noteq> []" by simp
  have xc: "str ''X'' \<in> set (labels ?c)" by simp
  have ned: "predictions ?d \<noteq> [] \<and> labels ?d \<noteq> []" by simp
  have xd: "str ''X'' \<in> set (labels ?d)" by simp
  note tc = C9_division_guards[of ?c]
  note td = C9_division_guards[of ?d]
  from tc xc have pc: "positive_class (labels ?c) = str ''X''" by blast
  from td xd have pd: "positive_class (labels ?d) = str ''X''" by blast
  from tc ne have "\<exists>m f1. compute ?c = Inr m
         \<and> m (str ''precision'') = Some (Fin (2 / 3))
         \<and> m (str ''recall'') = Some (Fin (2 / 3))
         \<and> m (str ''f1'') = Some (Fin f1)"
    unfolding Let_def pc by (simp add: count_pairs_def)
  moreover from td ned have "\<exists>m. compute ?d = Inr m
         \<and> m (str ''precision'') = Some (Fin 0)
         \<and> m (str ''recall'') = Some (Fin 0)
         \<and> m (str ''f1'') = Some (Fin 0)"
    unfolding Let_def pd by (simp add: count_pairs_def)
  ultimately show ?thesis using ne xc by simp
qed

text \<open>
  C6: \<^verbatim>\<open>evaluate\<close> never mutates the sample it is given. Every object that
  is in the store before the call, the caller's sample among them, is the same after
  the call, whether the sample is a \<^verbatim>\<open>PatentSample\<close> or a base
  \<^verbatim>\<open>Sample\<close>; the converted sample is a new object. The outcome is the one
  computed from the value of the caller's sample.
\<close>

lemma store_post_init_old:
  assumes "b \<noteq> a"
  shows "store_post_init h a ! b = h ! b"
  using assms by (simp add: store_post_init_def split: sample_arg.splits)

lemma store_post_init_new:
  assumes "a < length h" "h ! a = Patent p"
  shows "store_post_init h a ! a = Patent (post_init p)"
  using assms by (simp add: store_post_init_def)

lemma store_new_PatentSample_old:
  assumes "b < length h"
  shows "fst (store_new_PatentSample h cl par q gt ctx md) ! b = h ! b"
  using assms by (simp add: store_new_PatentSample_def Let_def store_post_init_old nth_append)

lemma store_new_PatentSample_new:
  "fst (store_new_PatentSample h cl par q gt ctx md)
     ! snd (store_new_PatentSample h cl par q gt ctx md)
   = Patent (PatentSample cl par q gt ctx md)"
  by (simp add: store_new_PatentSample_def Let_def store_post_init_new PatentSample_def)

lemma evaluate_as_patent_sample:
  "evaluate to_float self (Patent (as_patent_sample s)) g = evaluate to_float self s g"
  by (simp add: evaluate_def as_patent_sample_def)

theorem C6_sample_not_mutated:
  assumes "a < length h"
  shows "(\<forall>b < length h. fst (evaluate_store to_float h self a g) ! b = h ! b)
    \<and> fst (evaluate_store to_float h self a g) ! a = h ! a
    \<and> snd (evaluate_store to_float h self a g) = evaluate to_float self (h ! a) g"
proof (cases "h ! a")
  case (Patent p)
  then show ?thesis by (simp add: evaluate_store_def)
next
  case (Base b)
  let ?n = "store_new_PatentSample h
                   (case metadata b (str ''claim'') of Some v \<Rightarrow> v | None \<Rightarrow> [])
                   (case metadata b (str ''paragraph'') of Some v \<Rightarrow> v | None \<Rightarrow> [])
                   []
                   (ground_truth b) (sample_context b) (metadata b)"
  have es: "evaluate_store to_float h self a g = (fst ?n, evaluate to_float self (fst ?n ! snd ?n) g)"
    using Base by (simp add: evaluate_store_def case_prod_beta)
  have new: "fst ?n ! snd ?n = Patent (as_patent_sample (Base b))"
    by (simp only: store_new_PatentSample_new as_patent_sample_def sample_arg.case)
  have old: "\<forall>c < length h. fst ?n ! c = h ! c"
    by (simp add: store_new_PatentSample_old)
  show ?thesis
    unfolding es using old assms new Base by (simp add: evaluate_as_patent_sample)
qed

theorem C6_witness:
  "(0::nat) < length [Base \<lparr>question = str ''q'', sample_context = str ''ctx'', ground_truth = Some (str ''x''),
                            metadata = [str ''claim'' \<mapsto> str ''c'']\<rparr>]
   \<and> fst (evaluate_store py_float
        [Base \<lparr>question = str ''q'', sample_context = str ''ctx'', ground_truth = Some (str ''x''),
               metadata = [str ''claim'' \<mapsto> str ''c'']\<rparr>]
        PatentMatchEnvironment_init 0
        \<lparr>reasoning = [], final_answer = str ''X'', bullet_ids = [], raw = Map.empty\<rparr>) ! 0
     = Base \<lparr>question = str ''q'', sample_context = str ''ctx'', ground_truth = Some (str ''x''),
             metadata = [str ''claim'' \<mapsto> str ''c'']\<rparr>
   \<and> length (fst (evaluate_store py_float
        [Base \<lparr>question = str ''q'', sample_context = str ''ctx'', ground_truth = Some (str ''x''),
               metadata = [str ''claim'' \<mapsto> str ''c'']\<rparr>]
        PatentMatchEnvironment_init 0
        \<lparr>reasoning = [], final_answer = str ''X'', bullet_ids = [], raw = Map.empty\<rparr>)) = 2"
proof -
  let ?h = "[Base \<lparr>question = str ''q'', sample_context = str ''ctx'', ground_truth = Some (str ''x''),
                            metadata = [str ''claim'' \<mapsto> str ''c'']\<rparr>]"
  let ?g = "\<lparr>reasoning = [], final_answer = str ''X'', bullet_ids = [],
             raw = (Map.empty :: pystr \<rightharpoonup> pyval)\<rparr>"
  have l: "(0::nat) < length ?h" by simp
  have len: "length (fst (evaluate_store py_float ?h PatentMatchEnvironment_init 0 ?g)) = 2"
    by (simp add: evaluate_store_def store_new_PatentSample_def store_post_init_def Let_def)
  from C6_sample_not_mutated[OF l, of py_float PatentMatchEnvironment_init ?g]
  have "fst (evaluate_store py_float ?h PatentMatchEnvironment_init 0 ?g) ! 0 = ?h ! 0"
    by (rule conjunct2[THEN conjunct1])
  then show ?thesis using l len by simp
qed

section \<open>The claim about the Playbook\<close>

lemma section_ids_bullets: "map bullet_id (concat (map snd secs)) = section_ids secs"
  by (induction secs rule: section_ids.induct) simp_all

lemma ids_bullets: "map bullet_id (bullets p) = section_ids (sections p)"
  by (simp add: bullets_def section_ids_bullets)

lemma set_ids_insert_bullet:
  "set (section_ids (insert_bullet sec b secs)) = insert (bullet_id b) (set (section_ids secs))"
  by (induction sec b secs rule: insert_bullet.induct) auto

lemma distinct_ids_insert_bullet:
  assumes "distinct (section_ids secs)" and "bullet_id b \<notin> set (section_ids secs)"
  shows "distinct (section_ids (insert_bullet sec b secs))"
  using assms
  by (induction sec b secs rule: insert_bullet.induct) (auto simp: set_ids_insert_bullet)

lemma ids_fresh_iff:
  "ids_fresh p = (distinct (section_ids (sections p))
     \<and> (\<forall>i \<in> set (section_ids (sections p)). i < next_id p))"
proof -
  have "list_all (\<lambda>b. bullet_id b < n) xs = (\<forall>i \<in> set (map bullet_id xs). i < n)"
    for n and xs :: "bullet list"
    by (induction xs) simp_all
  then show ?thesis by (simp only: ids_fresh_def ids_bullets)
qed

lemma ids_fresh_add:
  assumes "ids_fresh p"
  shows "ids_fresh (fst (playbook_add p sec txt))"
    and "snd (playbook_add p sec txt) = next_id p"
    and "next_id (fst (playbook_add p sec txt)) = Suc (next_id p)"
proof -
  let ?b = "\<lparr>bullet_id = next_id p, bullet_section = sec, content = txt,
               helpful_count = 0, harmful_count = 0\<rparr>"
  let ?ids = "section_ids (sections p)"
  from assms have d: "distinct ?ids" and l: "\<forall>i \<in> set ?ids. i < next_id p"
    unfolding ids_fresh_iff by blast+
  from l have "next_id p \<notin> set ?ids" by blast
  then have nin: "bullet_id ?b \<notin> set ?ids" by simp
  show n: "next_id (fst (playbook_add p sec txt)) = Suc (next_id p)"
    by (simp add: playbook_add_def Let_def)
  have s: "sections (fst (playbook_add p sec txt)) = insert_bullet sec ?b (sections p)"
    by (simp add: playbook_add_def Let_def)
  have "distinct (section_ids (insert_bullet sec ?b (sections p)))"
    using d nin by (rule distinct_ids_insert_bullet)
  moreover have "\<forall>i \<in> set (section_ids (insert_bullet sec ?b (sections p))). i < Suc (next_id p)"
    unfolding set_ids_insert_bullet using l by auto
  ultimately show "ids_fresh (fst (playbook_add p sec txt))"
    unfolding ids_fresh_iff s n by blast
  show "snd (playbook_add p sec txt) = next_id p" by (simp add: playbook_add_def Let_def)
qed

lemma section_ids_map:
  assumes "\<And>b. bullet_id (f b) = bullet_id b"
  shows "section_ids (map (\<lambda>(s, bs). (s, map (\<lambda>b. if bullet_id b = i then f b else b) bs)) secs)
      = section_ids secs"
  by (induction secs rule: section_ids.induct) (simp_all add: assms)

lemma ids_fresh_map_bullet:
  assumes "ids_fresh p" "\<And>b. bullet_id (f b) = bullet_id b"
  shows "ids_fresh (map_bullet i f p)"
proof -
  have "section_ids (sections (map_bullet i f p)) = section_ids (sections p)"
    using section_ids_map[of f i "sections p"] assms(2) by (simp add: map_bullet_def)
  moreover have "next_id (map_bullet i f p) = next_id p" by (simp add: map_bullet_def)
  ultimately show ?thesis using assms(1) unfolding ids_fresh_iff by simp
qed

lemma section_ids_filter:
  "section_ids (map (\<lambda>(s, bs). (s, filter (\<lambda>b. bullet_id b \<noteq> i) bs)) secs)
     = filter (\<lambda>j. j \<noteq> i) (section_ids secs)"
  by (induction secs rule: section_ids.induct) (simp_all add: filter_map comp_def)

lemma ids_fresh_remove:
  assumes "ids_fresh p" "playbook_remove p i = Inr p'"
  shows "ids_fresh p'" "next_id p' = next_id p"
proof -
  from assms(2) have p': "p' = p\<lparr>sections := map (\<lambda>(s, bs). (s, filter (\<lambda>b. bullet_id b \<noteq> i) bs)) (sections p)\<rparr>"
    by (simp add: playbook_remove_def split: if_splits)
  then show n: "next_id p' = next_id p" by simp
  have b: "section_ids (sections p') = filter (\<lambda>j. j \<noteq> i) (section_ids (sections p))"
    by (simp add: p' section_ids_filter)
  from assms(1) have "distinct (section_ids (sections p))"
    and "\<forall>j \<in> set (section_ids (sections p)). j < next_id p"
    unfolding ids_fresh_iff by blast+
  then show "ids_fresh p'"
    unfolding ids_fresh_iff b n by simp
qed

lemma ids_fresh_update:
  assumes "ids_fresh p" "playbook_update p i txt = Inr p'"
  shows "ids_fresh p'" "next_id p' = next_id p"
proof -
  from assms(2) have p': "p' = map_bullet i (\<lambda>b. b\<lparr>content := txt\<rparr>) p"
    by (simp add: playbook_update_def split: if_splits)
  show "ids_fresh p'" unfolding p' using assms(1) by (rule ids_fresh_map_bullet) simp
  show "next_id p' = next_id p" by (simp add: p' map_bullet_def)
qed

lemma ids_fresh_tag:
  assumes "ids_fresh p" "playbook_tag p i helpful = Inr p'"
  shows "ids_fresh p'" "next_id p' = next_id p"
proof -
  from assms(2) have p': "p' = map_bullet i
          (\<lambda>b. if helpful then b\<lparr>helpful_count := helpful_count b + 1\<rparr>
                else b\<lparr>harmful_count := harmful_count b + 1\<rparr>) p"
    by (simp add: playbook_tag_def split: if_splits)
  show "ids_fresh p'" unfolding p' using assms(1) by (rule ids_fresh_map_bullet) simp
  show "next_id p' = next_id p" by (simp add: p' map_bullet_def)
qed

lemma apply_operations_fresh:
  assumes "ids_fresh p" and "apply_operations p ops = (p', ids, dropped)"
  shows "ids_fresh p' \<and> distinct ids \<and> next_id p \<le> next_id p'
           \<and> (\<forall>i \<in> set ids. next_id p \<le> i \<and> i < next_id p')"
  using assms
proof (induction p ops arbitrary: p' ids dropped rule: apply_operations.induct)
  case (1 p)
  then show ?case by simp
next
  case (2 p sec body ops)
  obtain p1 where pa: "playbook_add p sec body = (p1, next_id p)"
    using ids_fresh_add(2)[OF "2.prems"(1), of sec body] by (metis prod.collapse)
  then have p1: "p1 = fst (playbook_add p sec body)" by simp
  have f1: "ids_fresh p1" and n1: "next_id p1 = Suc (next_id p)"
    unfolding p1 using "2.prems"(1) by (rule ids_fresh_add)+
  obtain p2 ids2 d2 where r: "apply_operations p1 ops = (p2, ids2, d2)"
    by (metis prod_cases3)
  from "2.prems"(2) have e: "p' = p2" "ids = next_id p # ids2"
    by (simp_all add: pa r)
  from "2.IH"[OF pa[symmetric] refl f1 r] n1
  show ?case unfolding e by auto
next
  case (3 p i body ops)
  show ?case
  proof (cases "playbook_update p i body")
    case (Inl e)
    obtain p2 ids2 d2 where r: "apply_operations p ops = (p2, ids2, d2)"
      by (metis prod_cases3)
    from "3.prems"(2) have e: "p' = p2" "ids = ids2" by (simp_all add: Inl r)
    from "3.IH"(1)[OF Inl "3.prems"(1) r] show ?thesis unfolding e .
  next
    case (Inr p1)
    note u = ids_fresh_update[OF "3.prems"(1) Inr]
    from "3.prems"(2) have r: "apply_operations p1 ops = (p', ids, dropped)" by (simp add: Inr)
    from "3.IH"(2)[OF Inr u(1) r] u(2) show ?thesis by simp
  qed
next
  case (4 p i helpful ops)
  show ?case
  proof (cases "playbook_tag p i helpful")
    case (Inl e)
    obtain p2 ids2 d2 where r: "apply_operations p ops = (p2, ids2, d2)"
      by (metis prod_cases3)
    from "4.prems"(2) have e: "p' = p2" "ids = ids2" by (simp_all add: Inl r)
    from "4.IH"(1)[OF Inl "4.prems"(1) r] show ?thesis unfolding e .
  next
    case (Inr p1)
    note u = ids_fresh_tag[OF "4.prems"(1) Inr]
    from "4.prems"(2) have r: "apply_operations p1 ops = (p', ids, dropped)" by (simp add: Inr)
    from "4.IH"(2)[OF Inr u(1) r] u(2) show ?thesis by simp
  qed
next
  case (5 p i ops)
  show ?case
  proof (cases "playbook_remove p i")
    case (Inl e)
    obtain p2 ids2 d2 where r: "apply_operations p ops = (p2, ids2, d2)"
      by (metis prod_cases3)
    from "5.prems"(2) have e: "p' = p2" "ids = ids2" by (simp_all add: Inl r)
    from "5.IH"(1)[OF Inl "5.prems"(1) r] show ?thesis unfolding e .
  next
    case (Inr p1)
    note u = ids_fresh_remove[OF "5.prems"(1) Inr]
    from "5.prems"(2) have r: "apply_operations p1 ops = (p', ids, dropped)" by (simp add: Inr)
    from "5.IH"(2)[OF Inr u(1) r] u(2) show ?thesis by simp
  qed
qed

lemma ids_fresh_init: "ids_fresh Playbook_init"
  by (simp add: ids_fresh_def Playbook_init_def bullets_def)

text \<open>
  C7: for every sequence of operations applied to a new Playbook, the ids returned by
  its ADD operations are pairwise distinct, also when bullets are removed in between
  (an id is never reused), and no two bullets of the resulting Playbook share an id.
\<close>

theorem C7_bullet_ids_unique:
  "distinct (fst (snd (apply_operations Playbook_init ops)))
   \<and> distinct (map bullet_id (bullets (fst (apply_operations Playbook_init ops))))"
proof -
  obtain p' ids dropped where r: "apply_operations Playbook_init ops = (p', ids, dropped)"
    by (metis prod_cases3)
  from apply_operations_fresh[OF ids_fresh_init r]
  have "ids_fresh p'" "distinct ids" by simp_all
  then show ?thesis by (simp add: r ids_fresh_def)
qed

theorem C7_witness:
  "fst (snd (apply_operations Playbook_init
      [ADD (str ''a'') (str ''one''), ADD (str ''b'') (str ''two''), REMOVE 1, UPDATE 7 (str ''x''), ADD (str ''a'') (str ''three'')]))
     = [0, 1, 2]
   \<and> distinct (fst (snd (apply_operations Playbook_init
      [ADD (str ''a'') (str ''one''), ADD (str ''b'') (str ''two''), REMOVE 1, UPDATE 7 (str ''x''), ADD (str ''a'') (str ''three'')])))
   \<and> map bullet_id (bullets (fst (apply_operations Playbook_init
      [ADD (str ''a'') (str ''one''), ADD (str ''b'') (str ''two''), REMOVE 1, UPDATE 7 (str ''x''), ADD (str ''a'') (str ''three'')])))
     = [0, 2]"
proof -
  let ?ops = "[ADD (str ''a'') (str ''one''), ADD (str ''b'') (str ''two''), REMOVE 1, UPDATE 7 (str ''x''), ADD (str ''a'') (str ''three'')]"
  have e: "fst (snd (apply_operations Playbook_init ?ops)) = [0, 1, 2]" by code_simp
  have b: "map bullet_id (bullets (fst (apply_operations Playbook_init ?ops))) = [0, 2]"
    by code_simp
  from C7_bullet_ids_unique[of ?ops] have d: "distinct (fst (snd (apply_operations Playbook_init ?ops)))"
    by (rule conjunct1)
  from e d b show ?thesis by (intro conjI)
qed

end
